theory Spec2Isabelle
  imports Main
begin

section \<open>Python values\<close>

text \<open>
  Observations, goals and oracle replies are JSON-like Python values. The code inspects
  them dynamically (\<^verbatim>\<open>isinstance\<close>, truthiness, \<^verbatim>\<open>dict.get\<close>), so they are
  embedded as one datatype. A dict is an association list with string keys; strings are
  lists of characters, read as ASCII text.
\<close>

datatype pyval =
    PNone
  | PBool bool
  | PInt int
  | PStr string
  | PList "pyval list"
  | PDict "(string \<times> pyval) list"

text \<open>Python truthiness: \<^verbatim>\<open>bool(v)\<close>, the test of \<^verbatim>\<open>if v:\<close>.\<close>

fun truthy :: "pyval \<Rightarrow> bool" where
  "truthy PNone = False"
| "truthy (PBool b) = b"
| "truthy (PInt i) = (i \<noteq> 0)"
| "truthy (PStr s) = (s \<noteq> [])"
| "truthy (PList xs) = (xs \<noteq> [])"
| "truthy (PDict kvs) = (kvs \<noteq> [])"

fun is_dict :: "pyval \<Rightarrow> bool" where
  "is_dict (PDict kvs) = True"
| "is_dict v = False"

text \<open>\<^verbatim>\<open>a or b\<close>: the first operand when it is truthy, else the second.\<close>

definition py_or :: "pyval \<Rightarrow> pyval \<Rightarrow> pyval" where
  "py_or a b = (if truthy a then a else b)"

text \<open>
  \<^verbatim>\<open>d.get(k, default)\<close> on a value already known to be a dict; on any other value
  the caller models the \<^verbatim>\<open>AttributeError\<close> separately.
\<close>

fun dget :: "pyval \<Rightarrow> string \<Rightarrow> pyval \<Rightarrow> pyval" where
  "dget (PDict kvs) k dflt = (case map_of kvs k of Some v \<Rightarrow> v | None \<Rightarrow> dflt)"
| "dget v k dflt = dflt"

section \<open>Strings: \<^verbatim>\<open>strip\<close>, \<^verbatim>\<open>upper\<close>, \<^verbatim>\<open>lower\<close>, \<^verbatim>\<open>in\<close>\<close>

definition is_space :: "char \<Rightarrow> bool" where
  "is_space c = (c \<in> set [CHR 0x09, CHR 0x0A, CHR 0x0B, CHR 0x0C, CHR 0x0D,
                           CHR 0x1C, CHR 0x1D, CHR 0x1E, CHR 0x1F, CHR 0x20])"

definition strip :: "string \<Rightarrow> string" where
  "strip s = rev (dropWhile is_space (rev (dropWhile is_space s)))"

definition upper_char :: "char \<Rightarrow> char" where
  "upper_char c =
     (case map_of (zip ''abcdefghijklmnopqrstuvwxyz'' ''ABCDEFGHIJKLMNOPQRSTUVWXYZ'') c of
        Some u \<Rightarrow> u | None \<Rightarrow> c)"

definition lower_char :: "char \<Rightarrow> char" where
  "lower_char c =
     (case map_of (zip ''ABCDEFGHIJKLMNOPQRSTUVWXYZ'' ''abcdefghijklmnopqrstuvwxyz'') c of
        Some l \<Rightarrow> l | None \<Rightarrow> c)"

definition upper :: "string \<Rightarrow> string" where
  "upper s = map upper_char s"

definition lower :: "string \<Rightarrow> string" where
  "lower s = map lower_char s"

text \<open>\<^verbatim>\<open>needle in hay\<close> for two strings.\<close>

fun is_prefix :: "string \<Rightarrow> string \<Rightarrow> bool" where
  "is_prefix [] ys = True"
| "is_prefix (x # xs) [] = False"
| "is_prefix (x # xs) (y # ys) = (x = y \<and> is_prefix xs ys)"

fun contains :: "string \<Rightarrow> string \<Rightarrow> bool" where
  "contains [] needle = (needle = [])"
| "contains (c # cs) needle = (is_prefix needle (c # cs) \<or> contains cs needle)"

section \<open>The action queue (\<^verbatim>\<open>agent/deprecated/memory.py\<close>)\<close>

definition ALLOWED_BTNS :: "string list" where
  "ALLOWED_BTNS = [''UP'', ''DOWN'', ''LEFT'', ''RIGHT'', ''A'', ''B'', ''START'']"

text \<open>
  One iteration of the loop of \<^verbatim>\<open>_normalize_primitives\<close>:
  \<^verbatim>\<open>s = str(a).strip().upper(); if s in _ALLOWED_BTNS: out.append(s)\<close>.
  For a string, \<^verbatim>\<open>str(a)\<close> is the string. For every other value \<^verbatim>\<open>str(a)\<close> is
  \<^verbatim>\<open>None\<close>, \<^verbatim>\<open>True\<close>, \<^verbatim>\<open>False\<close>, a decimal numeral, or text that opens with a
  bracket or a brace; none of these is a button name after stripping and upper-casing,
  so such an item is dropped.
\<close>

fun normalize_item :: "pyval \<Rightarrow> string list" where
  "normalize_item (PStr a) =
     (let s = upper (strip a) in if s \<in> set ALLOWED_BTNS then [s] else [])"
| "normalize_item v = []"

fun normalize_primitives :: "pyval \<Rightarrow> string list" where
  "normalize_primitives (PList xs) = concat (map normalize_item xs)"
| "normalize_primitives v = (if truthy v then normalize_item v else [])"


section \<open>\<^verbatim>\<open>str\<close> of a value\<close>

function digits_of :: "nat \<Rightarrow> string" where
  "digits_of n =
     (if n < 10 then [''0123456789'' ! n]
      else digits_of (n div 10) @ [''0123456789'' ! (n mod 10)])"
  by pat_completeness auto
termination
  by (relation "measure id") auto

definition str_of_int :: "int \<Rightarrow> string" where
  "str_of_int i = (if i < 0 then CHR ''-'' # digits_of (nat (- i)) else digits_of (nat i))"

text \<open>\<^verbatim>\<open>sep.join(xs)\<close>.\<close>

definition join :: "string \<Rightarrow> string list \<Rightarrow> string" where
  "join sep xs = (case xs of [] \<Rightarrow> [] | y # ys \<Rightarrow> y @ concat (map (\<lambda>z. sep @ z) ys))"

text \<open>
  \<^verbatim>\<open>repr(v)\<close>, for text without quotes, backslashes or control characters (Python
  chooses the quote and escapes otherwise).
\<close>

fun py_repr :: "pyval \<Rightarrow> string" where
  "py_repr PNone = ''None''"
| "py_repr (PBool b) = (if b then ''True'' else ''False'')"
| "py_repr (PInt i) = str_of_int i"
| "py_repr (PStr s) = [CHR 0x27] @ s @ [CHR 0x27]"
| "py_repr (PList xs) = ''['' @ join '', '' (map py_repr xs) @ '']''"
| "py_repr (PDict kvs) =
     ''{'' @ join '', '' (map (\<lambda>kv. [CHR 0x27] @ fst kv @ [CHR 0x27] @ '': '' @ py_repr (snd kv)) kvs)
       @ ''}''"

fun py_str :: "pyval \<Rightarrow> string" where
  "py_str (PStr s) = s"
| "py_str v = py_repr v"

section \<open>Goals and the memory module (\<^verbatim>\<open>agent/deprecated/memory.py\<close>)\<close>

text \<open>
  A goal is a dict of the long-term plan, with the keys of \<^verbatim>\<open>DEFAULT_EMERALD_LT_PLAN\<close>;
  \<open>movement_only\<close> is \<open>False\<close> where the key is absent, as
  \<^verbatim>\<open>goal.get('movement_only', False)\<close> reads it.
\<close>

record goal =
  goal_id :: string
  goal_text :: string
  status :: string
  completion_cues :: "string list"
  movement_only :: bool

text \<open>
  \<^verbatim>\<open>state["current_goal"]\<close> is \<^verbatim>\<open>None\<close>, or a reference to one of the dicts of
  the plan (so a status written through the plan is seen through the reference), or,
  after \<^verbatim>\<open>load()\<close> has merged a saved state, a dict of its own.
\<close>

datatype goal_ptr = NoGoal | InPlan nat | Detached goal

record memory =
  long_term_plan :: "goal list"
  current_goal :: goal_ptr
  location :: pyval
  last_action :: pyval
  naming_handled :: bool
  pending :: "string list"
  clock_sequence_queued :: bool
  set_clock_sequence_queued :: bool
  downstairs_sequence_queued :: bool
  dialogue_streak :: int
  last_scene :: pyval
  post_dialogue_escape_done :: bool
  step_counter :: int
  entry_coords_by_map :: "(string \<times> (pyval \<times> pyval)) list"
  failed_movements :: "(string \<times> string list) list"
  last_coords :: "(pyval \<times> pyval) option"

text \<open>
  \<open>pending\<close> is the module-level list \<^verbatim>\<open>_GLOBAL_PENDING\<close>. The fields from
  \<open>clock_sequence_queued\<close> to \<open>step_counter\<close> are the entries of
  \<^verbatim>\<open>_runtime_flags\<close>; an entry that is read with \<^verbatim>\<open>rf.get(key, default)\<close> and
  is not there yet has the default (\<open>0\<close>, \<open>False\<close>, \<open>PNone\<close>).
\<close>

definition enqueue_actions :: "pyval \<Rightarrow> memory \<Rightarrow> memory" where
  "enqueue_actions actions m =
     (let items = normalize_primitives actions
      in if items = [] then m else m\<lparr>pending := pending m @ items\<rparr>)"

definition pop_next_action :: "memory \<Rightarrow> string option \<times> memory" where
  "pop_next_action m =
     (case pending m of
        [] \<Rightarrow> (None, m)
      | act # rest \<Rightarrow> (Some act, m\<lparr>pending := rest, last_action := PStr act\<rparr>))"

definition peek_next_action :: "memory \<Rightarrow> string option" where
  "peek_next_action m = (case pending m of [] \<Rightarrow> None | act # rest \<Rightarrow> Some act)"

definition skip_next_action :: "memory \<Rightarrow> string option \<times> memory" where
  "skip_next_action m =
     (case pending m of
        [] \<Rightarrow> (None, m)
      | skipped # rest \<Rightarrow> (Some skipped, m\<lparr>pending := rest\<rparr>))"

text \<open>A run of calls: enqueues one after another, then \<open>n\<close> pops with their results.\<close>

fun enqueue_all :: "pyval list \<Rightarrow> memory \<Rightarrow> memory" where
  "enqueue_all [] m = m"
| "enqueue_all (actions # calls) m = enqueue_all calls (enqueue_actions actions m)"

fun pop_many :: "nat \<Rightarrow> memory \<Rightarrow> string option list \<times> memory" where
  "pop_many 0 m = ([], m)"
| "pop_many (Suc n) m =
     (let (r, m1) = pop_next_action m; (rs, m2) = pop_many n m1 in (r # rs, m2))"

subsection \<open>The goal tracker\<close>

text \<open>The dict that \<^verbatim>\<open>state["current_goal"]\<close> denotes, if any.\<close>

definition goal_at :: "memory \<Rightarrow> goal_ptr \<Rightarrow> goal option" where
  "goal_at m p =
     (case p of
        NoGoal \<Rightarrow> None
      | InPlan i \<Rightarrow> (if i < length (long_term_plan m) then Some (long_term_plan m ! i) else None)
      | Detached g \<Rightarrow> Some g)"

text \<open>
  \<^verbatim>\<open>for goal in plan: if goal.get("status") == "pending": ...\<close>, as the index of the
  first hit at or after position \<open>i\<close> of the whole plan.
\<close>

fun first_pending :: "nat \<Rightarrow> goal list \<Rightarrow> nat option" where
  "first_pending i [] = None"
| "first_pending i (g # gs) =
     (if status g = ''pending'' then Some i else first_pending (Suc i) gs)"

fun first_with_id :: "string \<Rightarrow> nat \<Rightarrow> goal list \<Rightarrow> nat option" where
  "first_with_id gid i [] = None"
| "first_with_id gid i (g # gs) =
     (if goal_id g = gid then Some i else first_with_id gid (Suc i) gs)"

text \<open>The result is the goal object returned (\<open>NoGoal\<close> for \<^verbatim>\<open>None\<close>).\<close>

definition get_active_goal :: "memory \<Rightarrow> goal_ptr \<times> memory" where
  "get_active_goal m =
     (case goal_at m (current_goal m) of
        Some g \<Rightarrow> (current_goal m, m)
      | None \<Rightarrow>
          (case first_pending 0 (long_term_plan m) of
             Some i \<Rightarrow> (InPlan i, m\<lparr>current_goal := InPlan i\<rparr>)
           | None \<Rightarrow> (NoGoal, m)))"

definition complete_current_goal :: "string \<Rightarrow> memory \<Rightarrow> memory" where
  "complete_current_goal gid m =
     (let (current, m1) = get_active_goal m
      in case goal_at m1 current of
           None \<Rightarrow> m1
         | Some c \<Rightarrow>
             if goal_id c \<noteq> gid then m1
             else
               (let plan = long_term_plan m1
                in case first_with_id gid 0 plan of
                     None \<Rightarrow> m1
                   | Some i \<Rightarrow>
                       (let plan' = plan[i := (plan ! i)\<lparr>status := ''completed''\<rparr>]
                        in case first_pending (Suc i) (drop (Suc i) plan') of
                             Some j \<Rightarrow> m1\<lparr>long_term_plan := plan', current_goal := InPlan j\<rparr>
                           | None \<Rightarrow> m1\<lparr>long_term_plan := plan', current_goal := NoGoal\<rparr>)))"

subsection \<open>Goal completion from an observation\<close>

datatype py_error = AttributeError | TypeError | ValueError

text \<open>\<^verbatim>\<open>any(c in text for c in cues)\<close>.\<close>

definition any_in :: "string list \<Rightarrow> string \<Rightarrow> bool" where
  "any_in cues text = list_ex (\<lambda>c. contains text c) cues"

text \<open>
  The chain of per-goal checks of \<^verbatim>\<open>update_goal_status\<close>: each is
  \<^verbatim>\<open>if goal_id == ...: if <condition>: self.complete_current_goal(goal_id); return\<close>,
  and a goal id matches at most one of them. \<open>flag\<close> is
  \<^verbatim>\<open>_runtime_flags.get("set_clock_sequence_queued", False)\<close>.
\<close>

definition goal_condition ::
  "string \<Rightarrow> string \<Rightarrow> string \<Rightarrow> pyval \<Rightarrow> nat \<Rightarrow> bool \<Rightarrow> bool" where
  "goal_condition gid text loc scene_type party_count flag =
     (if gid = ''start_game'' \<and> scene_type = PStr ''MAP''
           \<and> (contains text ''truck'' \<or> contains text ''moving box'') then True
      else if gid = ''leave_the_truck''
           \<and> any_in [''your room is upstairs'', ''player'' @ [CHR 0x27] @ ''s house'',
                      ''mom'', ''arrived''] text then True
      else if gid = ''go_upstairs'' \<and> contains loc ''2f'' then True
      else if gid = ''player_bedroom_entered'' \<and> contains loc ''2f''
           \<and> any_in [''this is your room'', ''your bedroom'', ''nintendo gamecube'',
                      ''clock''] text then True
      else if gid = ''set_bedroom_clock'' \<and> scene_type = PStr ''DIALOGUE'' \<and> flag then True
      else if gid = ''set_bedroom_clock'' \<and> scene_type = PStr ''MAP'' \<and> flag then True
      else if gid = ''return_downstairs'' \<and> contains loc ''1f'' \<and> flag then True
      else if gid = ''exit_player_house'' \<and> contains loc ''littleroot town''
           \<and> \<not> contains loc ''house'' then True
      else if gid = ''go_to_birch_lab'' \<and> contains loc ''lab'' \<and> contains loc ''birch'' then True
      else if gid = ''find_route_101''
           \<and> (contains loc ''route 101'' \<or> contains loc ''route101'') then True
      else if gid = ''find_professor_birch'' \<and> contains text ''professor''
           \<and> (contains text ''help'' \<or> contains text ''pokemon'' \<or> contains text ''birch'')
        then True
      else if gid = ''choose_starter'' \<and> party_count \<ge> 1 then True
      else False)"

text \<open>The text matched against: the summary and the key elements, lower-cased.\<close>

definition key_elements_text :: "pyval \<Rightarrow> string" where
  "key_elements_text ke =
     (case ke of
        PDict kvs \<Rightarrow> '' '' @ join '' '' (map (\<lambda>kv. lower (py_str (snd kv))) kvs)
      | _ \<Rightarrow> (if truthy ke then '' '' @ lower (py_str ke) else []))"

text \<open>
  The first lines of \<^verbatim>\<open>update_goal_status\<close>: a string observation becomes a dict
  around it, any other non-dict ends the call.
\<close>

definition as_observation :: "pyval \<Rightarrow> pyval option" where
  "as_observation observation =
     (case observation of
        PDict kvs \<Rightarrow> Some observation
      | PStr s \<Rightarrow> Some (PDict [(''summary'', observation), (''key_elements'', PDict []),
                              (''state'', PDict [])])
      | _ \<Rightarrow> None)"

text \<open>
  The data read from the observation once the summary is known to be a string, and the
  per-goal check on them.
\<close>

definition goal_reached :: "pyval \<Rightarrow> string \<Rightarrow> string \<Rightarrow> bool \<Rightarrow> bool" where
  "goal_reached observation summary gid flag =
     (let key_elements = dget observation ''key_elements'' (PDict []);
          state = dget observation ''state'' (PDict []);
          text = lower summary @ key_elements_text key_elements;
          scene_type = dget observation ''scene_type'' (PStr []);
          player = (if is_dict state then dget state ''player'' (PDict []) else PDict []);
          loc = (if is_dict player then lower (py_str (dget player ''location'' (PStr [])))
                 else []);
          party_count =
            (if is_dict player
             then (case dget player ''party'' (PList []) of
                     PList party \<Rightarrow> length party | _ \<Rightarrow> 0)
             else 0)
      in goal_condition gid text loc scene_type party_count flag)"

text \<open>
  \<^verbatim>\<open>update_goal_status\<close>. The result pairs the exception that escapes, if any, with
  the memory at that point: \<^verbatim>\<open>summary.lower()\<close> raises when the summary is not a
  string.
\<close>

definition update_goal_status :: "pyval \<Rightarrow> memory \<Rightarrow> py_error option \<times> memory" where
  "update_goal_status observation0 m =
     (case as_observation observation0 of
        None \<Rightarrow> (None, m)
      | Some observation \<Rightarrow>
          (let (current, m1) = get_active_goal m
           in case goal_at m1 current of
                None \<Rightarrow> (None, m1)
              | Some c \<Rightarrow>
                  if goal_id c = [] then (None, m1)
                  else
                    (case dget observation ''summary'' (PStr []) of
                       PStr summary \<Rightarrow>
                         if goal_reached observation summary (goal_id c)
                              (set_clock_sequence_queued m1)
                         then (None, complete_current_goal (goal_id c) m1)
                         else (None, m1)
                     | _ \<Rightarrow> (Some AttributeError, m1))))"

subsection \<open>\<^verbatim>\<open>MemoryModule.update\<close>\<close>

text \<open>
  \<^verbatim>\<open>MemoryModule._get_coords\<close>: any exception inside is swallowed and gives
  \<^verbatim>\<open>None\<close>, so a non-dict on the path gives \<open>None\<close>.
\<close>

definition mem_get_coords :: "pyval \<Rightarrow> (pyval \<times> pyval) option" where
  "mem_get_coords observation =
     (if \<not> is_dict observation then None
      else let state = dget observation ''state'' (PDict [])
           in if \<not> is_dict state then None
              else let player = dget state ''player'' (PDict [])
                   in if \<not> is_dict player then None
                      else let pos = dget player ''position'' (PDict [])
                           in if \<not> is_dict pos then None
                              else let x = dget pos ''x'' PNone; y = dget pos ''y'' PNone
                                   in if x \<noteq> PNone \<and> y \<noteq> PNone then Some (x, y) else None)"

text \<open>
  The location an observation reports: \<^verbatim>\<open>observation["state"]["player"]["location"]\<close>
  behind the three \<^verbatim>\<open>isinstance(..., dict)\<close> tests of \<^verbatim>\<open>update\<close>; \<open>PNone\<close> when
  a test fails or the key is absent (\<^verbatim>\<open>update\<close> then does nothing, as for any falsy
  location).
\<close>

definition player_location :: "pyval \<Rightarrow> pyval" where
  "player_location observation =
     (if is_dict observation
      then let state = dget observation ''state'' (PDict [])
           in if is_dict state
              then let player = dget state ''player'' (PDict [])
                   in if is_dict player then dget player ''location'' PNone else PNone
              else PNone
      else PNone)"

fun dict_set :: "'k \<Rightarrow> 'v \<Rightarrow> ('k \<times> 'v) list \<Rightarrow> ('k \<times> 'v) list" where
  "dict_set k v [] = [(k, v)]"
| "dict_set k v (kv # kvs) = (if fst kv = k then (k, v) # kvs else kv # dict_set k v kvs)"

definition record_failed_movement :: "pyval \<times> pyval \<Rightarrow> string \<Rightarrow> memory \<Rightarrow> memory" where
  "record_failed_movement coords direction m =
     (let key = py_str (fst coords) @ ''_'' @ py_str (snd coords);
          failed = (case map_of (failed_movements m) key of Some ds \<Rightarrow> ds | None \<Rightarrow> [])
      in if direction \<in> set failed
         then m\<lparr>failed_movements := dict_set key failed (failed_movements m)\<rparr>
         else m\<lparr>failed_movements := dict_set key (failed @ [direction]) (failed_movements m)\<rparr>)"

definition update :: "pyval \<Rightarrow> pyval \<Rightarrow> memory \<Rightarrow> memory" where
  "update observation action m =
     (let m1 = (if truthy action then m\<lparr>last_action := action\<rparr> else m);
          loc = player_location observation;
          m2 = (if truthy loc
                then (let prev_loc = location m1;
                          m' = (if truthy prev_loc \<and> prev_loc \<noteq> loc
                                then (let cleared = m1\<lparr>pending := []\<rparr>
                                      in case mem_get_coords observation of
                                           Some coords \<Rightarrow>
                                             cleared\<lparr>entry_coords_by_map :=
                                               dict_set (py_str loc) coords
                                                 (entry_coords_by_map cleared)\<rparr>
                                         | None \<Rightarrow> cleared)
                                else m1)
                      in m'\<lparr>location := loc\<rparr>)
                else m1)
      in if truthy action
            \<and> action \<in> set [PStr ''UP'', PStr ''DOWN'', PStr ''LEFT'', PStr ''RIGHT'']
         then (let current_coords = mem_get_coords observation;
                   m3 = (case (last_coords m2, current_coords) of
                           (Some lc, Some cc) \<Rightarrow>
                             if cc = lc then record_failed_movement cc (py_str action) m2 else m2
                         | _ \<Rightarrow> m2)
               in m3\<lparr>last_coords := current_coords\<rparr>)
         else m2)"

subsection \<open>Observing the goal tracker\<close>

text \<open>The dict that a call of \<^verbatim>\<open>get_active_goal()\<close> returns (\<open>None\<close> for \<^verbatim>\<open>None\<close>).\<close>

definition active_goal :: "memory \<Rightarrow> goal option" where
  "active_goal m = goal_at (snd (get_active_goal m)) (fst (get_active_goal m))"

text \<open>
  The three operations that can write a goal's status or the current goal, and a run of
  them. An exception escaping \<^verbatim>\<open>update_goal_status\<close> leaves the memory as it is at
  that point.
\<close>

datatype goal_op = GetActive | Complete string | UpdateStatus pyval

fun apply_goal_op :: "goal_op \<Rightarrow> memory \<Rightarrow> memory" where
  "apply_goal_op GetActive m = snd (get_active_goal m)"
| "apply_goal_op (Complete gid) m = complete_current_goal gid m"
| "apply_goal_op (UpdateStatus observation) m = snd (update_goal_status observation m)"

fun apply_goal_ops :: "goal_op list \<Rightarrow> memory \<Rightarrow> memory" where
  "apply_goal_ops [] m = m"
| "apply_goal_ops (x # xs) m = apply_goal_ops xs (apply_goal_op x m)"

text \<open>A goal after a step: the same dict, or the same dict with its status completed.\<close>

definition goal_step :: "goal \<Rightarrow> goal \<Rightarrow> bool" where
  "goal_step g g' = (g' = g \<or> g' = g\<lparr>status := ''completed''\<rparr>)"

subsection \<open>Example states\<close>

definition example_goal :: "string \<Rightarrow> string \<Rightarrow> goal" where
  "example_goal gid st =
     \<lparr>goal_id = gid, goal_text = ''Go upstairs'', status = st,
      completion_cues = [], movement_only = False\<rparr>"

text \<open>A fresh memory, as \<^verbatim>\<open>MemoryModule.__init__\<close> leaves it, with the given plan.\<close>

definition fresh_memory :: "goal list \<Rightarrow> memory" where
  "fresh_memory plan =
     \<lparr>long_term_plan = plan, current_goal = NoGoal, location = PNone, last_action = PNone,
      naming_handled = False, pending = [], clock_sequence_queued = False,
      set_clock_sequence_queued = False, downstairs_sequence_queued = False,
      dialogue_streak = 0, last_scene = PNone, post_dialogue_escape_done = False,
      step_counter = 0, entry_coords_by_map = [], failed_movements = [],
      last_coords = None\<rparr>"

definition plan_xy :: "goal list" where
  "plan_xy = [example_goal ''x'' ''pending'', example_goal ''y'' ''pending'']"

text \<open>An observation that reports the player at a named location.\<close>

definition obs_at :: "string \<Rightarrow> pyval" where
  "obs_at loc = PDict [(''state'', PDict [(''player'', PDict [(''location'', PStr loc)])])]"

section \<open>The decision engine (\<^verbatim>\<open>agent/deprecated/planning.py\<close>)\<close>

text \<open>The dict \<^verbatim>\<open>{"action": ..., "reason": ...}\<close> that \<^verbatim>\<open>decide\<close> returns.\<close>

record decision =
  d_action :: pyval
  d_reason :: string

definition DIRECTIONS :: "string list" where
  "DIRECTIONS = [''UP'', ''DOWN'', ''LEFT'', ''RIGHT'']"

text \<open>
  What \<^verbatim>\<open>decide\<close> obtains from outside this file for one observation:
  \<open>ext_walkable\<close> is \<^verbatim>\<open>self._analyze_movement_preview(observation)['walkable']\<close>
  (its later stages read \<^verbatim>\<open>utils.state_formatter\<close>); \<open>ext_actions\<close> is the list
  \<^verbatim>\<open>self._parse_actions(response, ...)\<close> makes of the oracle's reply;
  \<open>ext_recommended\<close> is \<^verbatim>\<open>recommended_direction\<close>, read off the target line built
  from the explored map (\<open>None\<close> when there is no target).
\<close>

record externals =
  ext_walkable :: "string list"
  ext_actions :: "string list"
  ext_recommended :: "string option"

text \<open>\<^verbatim>\<open>PlanningModule._get_coords\<close>: top-level player keys first, then the state.\<close>

definition plan_get_coords :: "pyval \<Rightarrow> (pyval \<times> pyval) option" where
  "plan_get_coords observation =
     (if \<not> is_dict observation then None
      else let player = dget observation ''player'' (PDict [])
           in if \<not> is_dict player then None
              else let x = dget player ''x'' PNone; y = dget player ''y'' PNone
                   in if x \<noteq> PNone \<and> y \<noteq> PNone then Some (x, y)
                      else mem_get_coords observation)"

text \<open>
  \<^verbatim>\<open>action_upper.split()[0] if ' ' in action_upper else action_upper\<close>, for text
  already stripped.
\<close>

definition base_action :: "string \<Rightarrow> string" where
  "base_action action_upper =
     (if CHR '' '' \<in> set action_upper then takeWhile (\<lambda>c. \<not> is_space c) action_upper
      else action_upper)"

text \<open>
  The block \<^verbatim>\<open># Validate and return\<close> of \<^verbatim>\<open>decide\<close>, in its two steps. First
  the overrides: the hard one for \<^verbatim>\<open>go_upstairs\<close>, else the soft one toward the
  recommended direction.
\<close>

definition apply_overrides ::
  "goal option \<Rightarrow> bool \<Rightarrow> string option \<Rightarrow> string list \<Rightarrow> pyval \<Rightarrow> pyval" where
  "apply_overrides active is_navigation_goal recommended_direction walkable action0 =
     (if (case active of Some g \<Rightarrow> goal_id g = ''go_upstairs'' | None \<Rightarrow> False)
      then (if action0 \<in> set [PStr ''DOWN'', PStr ''A''] then PStr ''UP'' else action0)
      else
        (case recommended_direction of
           None \<Rightarrow> action0
         | Some r \<Rightarrow>
             if is_navigation_goal \<and> r \<noteq> [] \<and> action0 \<noteq> PStr r
                \<and> (action0 = PStr ''A''
                     \<or> (action0 \<in> set (map PStr DIRECTIONS)
                          \<and> action0 \<in> set (map PStr walkable)))
                \<and> (walkable = [] \<or> r \<in> set walkable)
             then PStr r else action0))"

text \<open>
  Then the check: a direction outside a non-empty walkable list gives way to the first
  walkable direction; a button press under a movement-only goal gives way to the first
  walkable direction, or to \<^verbatim>\<open>WAIT\<close> when there is none.
\<close>

definition check_walkable :: "string list \<Rightarrow> bool \<Rightarrow> pyval \<Rightarrow> decision" where
  "check_walkable walkable restrict_to_movement action1 =
     (if action1 \<in> set (map PStr DIRECTIONS)
      then (case walkable of
              [] \<Rightarrow> \<lparr>d_action = action1, d_reason = ''validated_navigation''\<rparr>
            | w # ws \<Rightarrow>
                if action1 \<notin> set (map PStr walkable)
                then \<lparr>d_action = PStr w, d_reason = ''validated_navigation''\<rparr>
                else \<lparr>d_action = action1, d_reason = ''validated_navigation''\<rparr>)
      else if base_action (strip (upper (py_str action1)))
                \<in> set [''A'', ''B'', ''START'', ''SELECT'']
              \<and> restrict_to_movement
      then (case walkable of
              [] \<Rightarrow> \<lparr>d_action = PStr ''WAIT'', d_reason = ''movement_required_but_blocked''\<rparr>
            | w # ws \<Rightarrow> \<lparr>d_action = PStr w, d_reason = ''validated_navigation''\<rparr>)
      else \<lparr>d_action = action1, d_reason = ''validated_navigation''\<rparr>)"

definition validate_action ::
  "goal option \<Rightarrow> bool \<Rightarrow> string option \<Rightarrow> string list \<Rightarrow> bool \<Rightarrow> pyval \<Rightarrow> decision" where
  "validate_action active is_navigation_goal recommended_direction walkable
       restrict_to_movement action0 =
     check_walkable walkable restrict_to_movement
       (apply_overrides active is_navigation_goal recommended_direction walkable action0)"

text \<open>
  \<^verbatim>\<open># PRIORITY 4: MAP navigation\<close>: the active goal, the truck exit, then the oracle's
  parsed actions; the first is validated and returned, the others are enqueued.
\<close>

definition NAVIGATION_KEYWORDS :: "string list" where
  "NAVIGATION_KEYWORDS =
     [''go'', ''upstairs'', ''downstairs'', ''exit'', ''leave'', ''enter'', ''find'', ''reach'']"

definition map_navigation :: "externals \<Rightarrow> string \<Rightarrow> memory \<Rightarrow> decision \<times> memory" where
  "map_navigation ext summary_lower m =
     (let (current, m1) = get_active_goal m;
          active = goal_at m1 current;
          gtext = (case active of Some g \<Rightarrow> goal_text g | None \<Rightarrow> ''Progress the game'');
          gid = (case active of Some g \<Rightarrow> goal_id g | None \<Rightarrow> ''no_goal'');
          is_navigation_goal = any_in NAVIGATION_KEYWORDS (lower gtext)
      in if gid \<in> set [''leave_the_truck'', ''start_game'']
            \<and> (contains summary_lower ''truck'' \<or> contains summary_lower ''box'')
         then (\<lparr>d_action = PStr ''RIGHT'', d_reason = ''truck_exit''\<rparr>, m1)
         else
           (let walkable = ext_walkable ext;
                restrict_to_movement =
                  (case active of Some g \<Rightarrow> movement_only g | None \<Rightarrow> False);
                (action0, m2) =
                  (case ext_actions ext of
                     [] \<Rightarrow> (PList [], m1)
                   | [a] \<Rightarrow> (PStr a, m1)
                   | a # rest \<Rightarrow> (PStr a, enqueue_actions (PList (map PStr rest)) m1))
            in (validate_action active is_navigation_goal (ext_recommended ext)
                  walkable restrict_to_movement action0, m2)))"



text \<open>
  The scripted bursts at the head of \<^verbatim>\<open>decide\<close>, each queued once and followed by
  the completion of the goal.
\<close>

definition hardcoded_sequences :: "string option \<Rightarrow> pyval \<Rightarrow> pyval \<Rightarrow> memory \<Rightarrow> memory" where
  "hardcoded_sequences goal_id_early scene_type observation m =
     (let coords = plan_get_coords observation;
          m1 = (if goal_id_early = Some ''player_bedroom_entered'' \<and> scene_type = PStr ''MAP''
                   \<and> \<not> clock_sequence_queued m \<and> coords = Some (PInt 7, PInt 2)
                then complete_current_goal ''player_bedroom_entered''
                       ((enqueue_actions
                           (PList (map PStr [''LEFT'', ''LEFT'', ''UP'', ''A'', ''A''])) m)
                          \<lparr>clock_sequence_queued := True\<rparr>)
                else m);
          m2 = (if goal_id_early = Some ''set_bedroom_clock'' \<and> scene_type = PStr ''MAP''
                   \<and> \<not> set_clock_sequence_queued m1 \<and> coords = Some (PInt 5, PInt 2)
                then complete_current_goal ''set_bedroom_clock''
                       ((enqueue_actions
                           (PList (map PStr [''A'', ''UP'', ''A'', ''UP'', ''A'', ''UP'', ''A'', ''UP''])) m1)
                          \<lparr>set_clock_sequence_queued := True\<rparr>)
                else m1)
      in if goal_id_early = Some ''return_downstairs'' \<and> scene_type = PStr ''MAP''
            \<and> \<not> downstairs_sequence_queued m2
         then complete_current_goal ''return_downstairs''
                ((enqueue_actions
                    (PList (map PStr [''RIGHT'', ''DOWN'', ''DOWN'', ''DOWN'', ''DOWN''])) m2)
                   \<lparr>downstairs_sequence_queued := True\<rparr>)
         else m2)"

definition DIALOGUE_LIKE :: "pyval list" where
  "DIALOGUE_LIKE = [PStr ''DIALOGUE'', PStr ''CUTSCENE'']"

text \<open>
  The handler of a \<^verbatim>\<open>DIALOGUE\<close> or \<^verbatim>\<open>CUTSCENE\<close> scene: count the step, queue a
  burst of A on entry, escalate at 60 and at 40, else drain a queued A or press A.
\<close>

definition dialogue_handler :: "pyval \<Rightarrow> pyval \<Rightarrow> memory \<Rightarrow> decision \<times> memory" where
  "dialogue_handler scene_type prev_scene m =
     (let m1 = m\<lparr>dialogue_streak := dialogue_streak m + 1\<rparr>;
          m2 = (if prev_scene \<notin> set DIALOGUE_LIKE
                then enqueue_actions (PList (map PStr [''A'', ''A'', ''A'', ''A''])) m1 else m1)
      in if dialogue_streak m2 \<ge> 60
         then (\<lparr>d_action = PStr ''START'', d_reason = ''dialogue_escalation_start''\<rparr>,
               m2\<lparr>last_scene := scene_type\<rparr>)
         else if dialogue_streak m2 \<ge> 40
         then (\<lparr>d_action = PStr ''B'', d_reason = ''dialogue_escalation_b''\<rparr>,
               m2\<lparr>last_scene := scene_type\<rparr>)
         else if peek_next_action m2 = Some ''A''
         then (\<lparr>d_action = PStr ''A'', d_reason = ''dialogue_queue''\<rparr>,
               (snd (pop_next_action m2))\<lparr>last_scene := scene_type\<rparr>)
         else (\<lparr>d_action = PStr ''A'', d_reason = ''dialogue''\<rparr>,
               m2\<lparr>last_scene := scene_type\<rparr>))"

text \<open>The one-step escape queued when a dialogue has just given way to the map.\<close>

definition post_dialogue_escape :: "externals \<Rightarrow> memory \<Rightarrow> memory" where
  "post_dialogue_escape ext m =
     (case ext_walkable ext of
        [] \<Rightarrow> m
      | w # ws \<Rightarrow>
          (let escape_dir =
                 (case filter (\<lambda>d. d \<in> set (ext_walkable ext)) [''RIGHT'', ''DOWN'', ''LEFT'', ''UP''] of
                    d # ds \<Rightarrow> d | [] \<Rightarrow> w)
           in (enqueue_actions (PList [PStr escape_dir]) m)\<lparr>post_dialogue_escape_done := True\<rparr>))"

definition TITLE_KEYWORDS :: "string list" where
  "TITLE_KEYWORDS = [''press start'', ''main menu'', ''pokemon emerald'', ''new game'', ''continue'']"

text \<open>
  The tail of \<^verbatim>\<open>decide\<close>, reached with no queued action: the naming screen, a
  transition, map navigation, and otherwise no \<^verbatim>\<open>return\<close> at all.
\<close>

definition decide_unqueued ::
  "externals \<Rightarrow> pyval \<Rightarrow> string \<Rightarrow> memory \<Rightarrow> decision option \<times> memory" where
  "decide_unqueued ext scene_type summary_lower m =
     (if scene_type = PStr ''MENU'' \<and> \<not> naming_handled m
         \<and> any_in [''name'', ''keyboard'', ''character'', ''enter''] summary_lower
      then (Some \<lparr>d_action = PStr ''START'', d_reason = ''naming''\<rparr>,
            (enqueue_actions (PList (map PStr [''A'', ''A'', ''A'', ''A'', ''START'']))
               (m\<lparr>naming_handled := True\<rparr>))\<lparr>last_scene := scene_type\<rparr>)
      else if scene_type = PStr ''TRANSITION''
      then (Some \<lparr>d_action = PStr ''WAIT'', d_reason = ''transition''\<rparr>,
            m\<lparr>last_scene := scene_type\<rparr>)
      else if scene_type = PStr ''MAP''
      then (let (d, m1) = map_navigation ext summary_lower m in (Some d, m1))
      else (None, m))"

text \<open>
  \<^verbatim>\<open>decide\<close>. An exception that escapes is \<open>Inl\<close>: \<^verbatim>\<open>summary.lower()\<close> on a summary
  that is not a string, \<^verbatim>\<open>map_info.get\<close> on a map entry that is neither falsy nor a
  dict. The result \<open>None\<close> is the \<^verbatim>\<open>None\<close> Python returns when no branch returns.
  An exception inside \<^verbatim>\<open>update_goal_status\<close> is caught and logged by \<^verbatim>\<open>decide\<close>.
\<close>

definition decide :: "externals \<Rightarrow> pyval \<Rightarrow> memory \<Rightarrow> py_error + (decision option \<times> memory)" where
  "decide ext observation0 m0 =
     (let observation =
            (if is_dict observation0 then observation0
             else PDict [(''scene_type'', PStr ''UNKNOWN''),
                         (''summary'', PStr (py_str observation0)),
                         (''key_elements'', PDict [])]);
          scene_type = dget observation ''scene_type'' (PStr ''UNKNOWN'')
      in case dget observation ''summary'' (PStr []) of
           PStr summary \<Rightarrow>
             if \<not> is_dict (py_or (dget observation ''map'' (PDict [])) (PDict []))
             then Inl AttributeError
             else
               (let summary_lower = lower summary;
                    m1 = m0\<lparr>step_counter := step_counter m0 + 1\<rparr>;
                    prev_scene = last_scene m1;
                    m2 = snd (update_goal_status observation m1);
                    (current, m3) = get_active_goal m2;
                    goal_id_early = map_option goal_id (goal_at m3 current);
                    m4 = hardcoded_sequences goal_id_early scene_type observation m3
                in if scene_type = PStr ''TITLE''
                   then Inr (Some \<lparr>d_action = PStr ''A'', d_reason = ''title''\<rparr>,
                             m4\<lparr>last_scene := scene_type\<rparr>)
                   else if scene_type = PStr ''UNKNOWN'' \<and> any_in TITLE_KEYWORDS summary_lower
                   then Inr (Some \<lparr>d_action = PStr ''A'', d_reason = ''title_fallback''\<rparr>,
                             m4\<lparr>last_scene := scene_type\<rparr>)
                   else if scene_type = PStr ''BATTLE''
                   then Inr (Some \<lparr>d_action = PStr ''A'', d_reason = ''battle''\<rparr>,
                             m4\<lparr>last_scene := scene_type\<rparr>)
                   else if scene_type \<in> set DIALOGUE_LIKE
                   then (let (d, m5) = dialogue_handler scene_type prev_scene m4
                         in Inr (Some d, m5))
                   else
                     (let m5 = (if prev_scene \<in> set DIALOGUE_LIKE
                                then m4\<lparr>dialogue_streak := 0, post_dialogue_escape_done := False\<rparr>
                                else m4);
                          m6 = (if scene_type = PStr ''MAP'' \<and> prev_scene \<in> set DIALOGUE_LIKE
                                   \<and> \<not> post_dialogue_escape_done m5
                                then post_dialogue_escape ext m5 else m5)
                      in if (case peek_next_action m6 of Some nxt \<Rightarrow> nxt \<noteq> [] | None \<Rightarrow> False)
                         then (let (nxt, m7) = pop_next_action m6
                               in Inr (Some \<lparr>d_action = (case nxt of Some a \<Rightarrow> PStr a | None \<Rightarrow> PNone),
                                              d_reason = ''queued''\<rparr>,
                                       m7\<lparr>last_scene := scene_type\<rparr>))
                         else Inr (decide_unqueued ext scene_type summary_lower m6)))
         | _ \<Rightarrow> Inl AttributeError)"

text \<open>
  A run of \<^verbatim>\<open>decide\<close> calls on successive observations: the actions returned
  (\<open>PNone\<close> where \<^verbatim>\<open>decide\<close> returns \<^verbatim>\<open>None\<close>) and the memory at the end. An
  exception ends the run.
\<close>

fun decide_run :: "externals \<Rightarrow> pyval list \<Rightarrow> memory \<Rightarrow> pyval list \<times> memory" where
  "decide_run ext [] m = ([], m)"
| "decide_run ext (observation # rest) m =
     (case decide ext observation m of
        Inl e \<Rightarrow> ([], m)
      | Inr (d, m1) \<Rightarrow>
          (let (acts, m2) = decide_run ext rest m1
           in ((case d of Some dec \<Rightarrow> d_action dec | None \<Rightarrow> PNone) # acts, m2)))"

text \<open>
  The ladder the specification describes for a streak of dialogue steps: A, then B from
  the first threshold, then START from the second.
\<close>

definition escalation_ladder :: "int \<Rightarrow> pyval" where
  "escalation_ladder streak =
     (if streak \<ge> 60 then PStr ''START'' else if streak \<ge> 40 then PStr ''B'' else PStr ''A'')"

text \<open>
  An observation \<^verbatim>\<open>decide\<close> takes to its dialogue handler: a dict whose scene type
  is \<^verbatim>\<open>DIALOGUE\<close> or \<^verbatim>\<open>CUTSCENE\<close>, with a string (or no) summary and a dict (or
  falsy, or no) map entry.
\<close>

definition dialogue_observation :: "pyval \<Rightarrow> bool" where
  "dialogue_observation observation =
     (is_dict observation
      \<and> dget observation ''scene_type'' (PStr ''UNKNOWN'') \<in> set DIALOGUE_LIKE
      \<and> (case dget observation ''summary'' (PStr []) of PStr s \<Rightarrow> True | _ \<Rightarrow> False)
      \<and> is_dict (py_or (dget observation ''map'' (PDict [])) (PDict [])))"

definition scene_obs :: "string \<Rightarrow> pyval" where
  "scene_obs scene = PDict [(''scene_type'', PStr scene), (''summary'', PStr [])]"

section \<open>The scene classifier (\<^verbatim>\<open>PerceptionModule._infer_scene_from_state\<close>)\<close>

text \<open>
  The function is the same in \<^verbatim>\<open>agent/openai/perception.py\<close> and
  \<^verbatim>\<open>agent/deprecated/perception.py\<close> (the deprecated copy only adds a debug print).
  Its result dict has three string entries.
\<close>

record scene_result =
  sr_scene_type :: string
  sr_summary :: string
  sr_key_elements :: string

text \<open>\<^verbatim>\<open>obs = obs or {}\<close>, and the \<^verbatim>\<open>state\<close> dict (empty unless the entry is a dict).\<close>

definition obs_dict :: "pyval \<Rightarrow> pyval" where
  "obs_dict obs0 = py_or obs0 (PDict [])"

definition obs_state :: "pyval \<Rightarrow> pyval" where
  "obs_state obs0 =
     (if is_dict (dget (obs_dict obs0) ''state'' PNone)
      then dget (obs_dict obs0) ''state'' (PDict []) else PDict [])"

text \<open>
  The attribute accesses that raise \<^verbatim>\<open>AttributeError\<close>: \<^verbatim>\<open>.get\<close> on an
  observation that is truthy and not a dict, on a \<^verbatim>\<open>battle\<close>, \<^verbatim>\<open>dialogue\<close> or
  \<^verbatim>\<open>menu\<close> entry that is not a dict, and on a \<^verbatim>\<open>map\<close> or \<^verbatim>\<open>player\<close> entry that
  is truthy and not a dict. All of them are evaluated before the first \<^verbatim>\<open>return\<close>.
\<close>

definition obs_shape_ok :: "pyval \<Rightarrow> bool" where
  "obs_shape_ok obs0 =
     (let obs = obs_dict obs0
      in is_dict obs
         \<and> is_dict (dget obs ''battle'' (PDict []))
         \<and> is_dict (dget obs ''dialogue'' (PDict []))
         \<and> is_dict (dget obs ''menu'' (PDict []))
         \<and> is_dict (py_or (dget obs ''map'' PNone) (PDict []))
         \<and> is_dict (py_or (dget obs ''player'' PNone) (PDict [])))"

text \<open>The locals of the function, each as read from the observation.\<close>

definition is_title :: "pyval \<Rightarrow> bool" where
  "is_title obs0 =
     truthy (py_or (dget (obs_dict obs0) ''title_screen'' PNone)
            (py_or (dget (obs_state obs0) ''is_title'' PNone)
                   (dget (obs_state obs0) ''title'' PNone)))"

definition in_battle :: "pyval \<Rightarrow> bool" where
  "in_battle obs0 =
     truthy (py_or (dget (dget (obs_dict obs0) ''battle'' (PDict [])) ''in_battle'' PNone)
            (py_or (dget (obs_state obs0) ''in_battle'' PNone)
                   (dget (obs_state obs0) ''battle'' PNone)))"

definition dialogue_open :: "pyval \<Rightarrow> bool" where
  "dialogue_open obs0 =
     truthy (py_or (dget (dget (obs_dict obs0) ''dialogue'' (PDict [])) ''open'' PNone)
            (py_or (dget (obs_state obs0) ''dialogue_open'' PNone)
            (py_or (dget (obs_dict obs0) ''textbox_open'' PNone)
                   (dget (obs_state obs0) ''textbox_open'' PNone))))"

definition menu_open :: "pyval \<Rightarrow> bool" where
  "menu_open obs0 =
     truthy (py_or (dget (dget (obs_dict obs0) ''menu'' (PDict [])) ''open'' PNone)
            (py_or (dget (obs_state obs0) ''menu_open'' PNone)
                   (dget (obs_state obs0) ''in_menu'' PNone)))"

definition cutscene :: "pyval \<Rightarrow> bool" where
  "cutscene obs0 =
     truthy (py_or (dget (obs_dict obs0) ''cutscene'' PNone)
            (py_or (dget (obs_state obs0) ''cutscene'' PNone)
                   (dget (obs_state obs0) ''script_active'' PNone)))"

definition map_name :: "pyval \<Rightarrow> pyval" where
  "map_name obs0 =
     py_or (dget (py_or (dget (obs_dict obs0) ''map'' PNone) (PDict [])) ''name'' PNone)
       (py_or (dget (obs_state obs0) ''map_name'' PNone)
              (dget (obs_dict obs0) ''location'' PNone))"

definition player_px :: "pyval \<Rightarrow> pyval" where
  "player_px obs0 =
     dget (py_or (dget (obs_dict obs0) ''player'' PNone) (PDict [])) ''x''
       (dget (obs_state obs0) ''player_x'' PNone)"

definition player_py :: "pyval \<Rightarrow> pyval" where
  "player_py obs0 =
     dget (py_or (dget (obs_dict obs0) ''player'' PNone) (PDict [])) ''y''
       (dget (obs_state obs0) ''player_y'' PNone)"

definition party_count_of :: "pyval \<Rightarrow> nat" where
  "party_count_of obs0 =
     (case py_or (dget (obs_dict obs0) ''party'' PNone)
             (py_or (dget (obs_state obs0) ''party'' PNone) (PList [])) of
        PList party \<Rightarrow> length party
      | _ \<Rightarrow> 0)"

definition opp_name :: "pyval \<Rightarrow> pyval" where
  "opp_name obs0 =
     (let o1 = (if is_dict (dget (obs_dict obs0) ''battle'' PNone)
                then dget (dget (obs_dict obs0) ''battle'' PNone) ''opponent_name'' PNone
                else PNone)
      in if \<not> truthy o1 \<and> is_dict (dget (obs_state obs0) ''battle_state'' PNone)
         then dget (dget (obs_state obs0) ''battle_state'' PNone) ''opponent_name'' PNone
         else o1)"

definition party_text :: "pyval \<Rightarrow> string" where
  "party_text obs0 = ''Party='' @ str_of_int (int (party_count_of obs0))"

definition infer_scene_from_state :: "pyval \<Rightarrow> py_error + scene_result" where
  "infer_scene_from_state obs0 =
     (if \<not> obs_shape_ok obs0 then Inl AttributeError
      else if is_title obs0
      then Inr \<lparr>sr_scene_type = ''TITLE'', sr_summary = ''Main menu visible.'',
                sr_key_elements = ''Screen=Title''\<rparr>
      else if in_battle obs0
      then Inr \<lparr>sr_scene_type = ''BATTLE'',
                sr_summary = ''Battle in progress''
                  @ (if truthy (opp_name obs0) then '' vs '' @ py_str (opp_name obs0) else []),
                sr_key_elements = party_text obs0\<rparr>
      else if dialogue_open obs0
      then Inr \<lparr>sr_scene_type = ''DIALOGUE'', sr_summary = ''Dialogue textbox visible.'',
                sr_key_elements = party_text obs0\<rparr>
      else if menu_open obs0
      then Inr \<lparr>sr_scene_type = ''MENU'', sr_summary = ''Menu open.'',
                sr_key_elements = party_text obs0\<rparr>
      else if cutscene obs0
      then Inr \<lparr>sr_scene_type = ''CUTSCENE'', sr_summary = ''Scripted scene.'',
                sr_key_elements = party_text obs0\<rparr>
      else if \<not> dialogue_open obs0 \<and> \<not> menu_open obs0 \<and> \<not> cutscene obs0
              \<and> (truthy (map_name obs0)
                   \<or> (player_px obs0 \<noteq> PNone \<and> player_py obs0 \<noteq> PNone))
      then Inr \<lparr>sr_scene_type = ''MAP'',
                sr_summary =
                  strip (py_str (py_or (map_name obs0) (PStr ''Overworld'')) @ '' ''
                         @ (if player_px obs0 \<noteq> PNone \<and> player_py obs0 \<noteq> PNone
                            then ''('' @ py_str (player_px obs0) @ '','' @ py_str (player_py obs0)
                                 @ '')''
                            else [])),
                sr_key_elements = party_text obs0\<rparr>
      else Inr \<lparr>sr_scene_type = ''UNKNOWN'', sr_summary = [], sr_key_elements = []\<rparr>)"

text \<open>The scene type of the classification, \<open>None\<close> when the function raises.\<close>

definition scene_type_of :: "pyval \<Rightarrow> string option" where
  "scene_type_of obs0 =
     (case infer_scene_from_state obs0 of Inr r \<Rightarrow> Some (sr_scene_type r) | Inl e \<Rightarrow> None)"

text \<open>
  The structured flags, key by key: a flag is set when one of its keys holds a truthy
  value. \<open>obs_flag\<close> reads a top-level key, \<open>state_flag\<close> a key of the state dict,
  \<open>sub_flag\<close> a key of a top-level sub-dict.
\<close>

definition obs_flag :: "pyval \<Rightarrow> string \<Rightarrow> bool" where
  "obs_flag obs0 k = truthy (dget (obs_dict obs0) k PNone)"

definition state_flag :: "pyval \<Rightarrow> string \<Rightarrow> bool" where
  "state_flag obs0 k = truthy (dget (obs_state obs0) k PNone)"

definition sub_flag :: "pyval \<Rightarrow> string \<Rightarrow> string \<Rightarrow> bool" where
  "sub_flag obs0 d k = truthy (dget (dget (obs_dict obs0) d (PDict [])) k PNone)"

text \<open>An observation with the title flag and a battle flag both set.\<close>

definition title_and_battle_obs :: pyval where
  "title_and_battle_obs =
     PDict [(''title_screen'', PBool True), (''state'', PDict [(''in_battle'', PBool True)])]"

text \<open>An observation with the title flag set and a \<^verbatim>\<open>dialogue\<close> entry that is \<^verbatim>\<open>None\<close>.\<close>

definition title_null_dialogue_obs :: pyval where
  "title_null_dialogue_obs = PDict [(''title_screen'', PBool True), (''dialogue'', PNone)]"

section \<open>The goal tracker of \<^verbatim>\<open>agent/openai/memory.py\<close>\<close>

text \<open>
  The state of the planner object and of the memory module it works on, with the number
  of calls made to the oracle (\<^verbatim>\<open>vlm.get_text_query\<close>). \<open>os_cache\<close> is
  \<^verbatim>\<open>PlanningModule.context_cache\<close>, \<open>os_shadow\<close> is \<^verbatim>\<open>_PENDING_SHADOW\<close>,
  \<open>os_pending\<close> is the module-level \<^verbatim>\<open>_GLOBAL_PENDING\<close>; the other fields are
  entries of \<^verbatim>\<open>memory.state\<close> (\<open>PNone\<close> for an absent key), \<open>os_state_keys\<close> the
  keys of that dict, and \<open>os_naming_handled\<close> is \<^verbatim>\<open>memory._naming_handled\<close>.
\<close>

record o_decision =
  od_action :: pyval
  od_reason :: "string option"

record ostate =
  os_cache :: "(string \<times> o_decision) list"
  os_shadow :: "string list"
  os_calls :: nat
  os_plan :: "goal list"
  os_current_goal :: pyval
  os_location :: pyval
  os_party :: pyval
  os_party_count :: pyval
  os_map_id :: pyval
  os_pending :: "string list"
  os_local_pending :: "string list"
  os_last_action :: pyval
  os_last_move_dir :: pyval
  os_naming_handled :: bool
  os_state_keys :: "string list"

text \<open>
  \<^verbatim>\<open>get_active_goal\<close>: the first goal whose status is not \<^verbatim>\<open>completed\<close>, as its
  index in the plan. Nothing is written; the state is returned with the result so that
  the call reads like the one of the deprecated tracker.
\<close>

fun first_not_completed :: "nat \<Rightarrow> goal list \<Rightarrow> nat option" where
  "first_not_completed i [] = None"
| "first_not_completed i (g # gs) =
     (if status g \<noteq> ''completed'' then Some i else first_not_completed (Suc i) gs)"

definition o_get_active_goal :: "ostate \<Rightarrow> nat option \<times> ostate" where
  "o_get_active_goal m = (first_not_completed 0 (os_plan m), m)"

definition mark_in_lt_plan :: "string \<Rightarrow> goal list \<Rightarrow> goal list" where
  "mark_in_lt_plan gid plan =
     (case first_with_id gid 0 plan of
        Some i \<Rightarrow> plan[i := (plan ! i)\<lparr>status := ''completed''\<rparr>]
      | None \<Rightarrow> plan)"

text \<open>
  The three lines that complete the active goal, the dict at index \<open>i\<close>:
  \<^verbatim>\<open>current["status"] = "completed"; self.mark_in_lt_plan(goal_id);
  self.state["current_goal"] = None\<close>.
\<close>

definition o_complete :: "nat \<Rightarrow> ostate \<Rightarrow> ostate" where
  "o_complete i m =
     m\<lparr>os_plan := mark_in_lt_plan (goal_id (os_plan m ! i))
                      ((os_plan m)[i := (os_plan m ! i)\<lparr>status := ''completed''\<rparr>]),
       os_current_goal := PNone\<rparr>"

text \<open>\<^verbatim>\<open>int(v)\<close> for a value: text is read as an optional sign and decimal digits.\<close>

definition is_digit :: "char \<Rightarrow> bool" where
  "is_digit c = (c \<in> set ''0123456789'')"

definition digit_value :: "char \<Rightarrow> nat" where
  "digit_value c =
     (case map_of (zip ''0123456789'' [0, 1, 2, 3, 4, 5, 6, 7, 8, 9]) c of
        Some n \<Rightarrow> n | None \<Rightarrow> 0)"

definition nat_of_digits :: "string \<Rightarrow> nat" where
  "nat_of_digits ds = foldl (\<lambda>n c. 10 * n + digit_value c) 0 ds"

definition py_int :: "pyval \<Rightarrow> py_error + int" where
  "py_int v =
     (case v of
        PInt i \<Rightarrow> Inr i
      | PBool b \<Rightarrow> Inr (if b then 1 else 0)
      | PStr s \<Rightarrow>
          (let t = strip s;
               body = (if t \<noteq> [] \<and> hd t \<in> set ''+-'' then tl t else t)
           in if body \<noteq> [] \<and> list_all is_digit body
              then Inr (if t \<noteq> [] \<and> hd t = CHR ''-'' then - int (nat_of_digits body)
                        else int (nat_of_digits body))
              else Inl ValueError)
      | _ \<Rightarrow> Inl TypeError)"

text \<open>
  The per-goal rules of \<^verbatim>\<open>update_goal_status\<close>, in the order of the source. A rule
  either completes the goal, returns with nothing done, raises, or falls through to the
  rules below it and in the end to the completion cues. The rule for
  \<^verbatim>\<open>littleroot_town_explore\<close> evaluates \<^verbatim>\<open>(..., ..., ...) in loc\<close>, a tuple on the
  left of \<^verbatim>\<open>in\<close> with a string on the right, which raises \<^verbatim>\<open>TypeError\<close>.
\<close>

datatype verdict = Complete | Return | Raise py_error | Fallback

definition o_goal_rule ::
  "string \<Rightarrow> string \<Rightarrow> string \<Rightarrow> string \<Rightarrow> pyval \<Rightarrow> int \<Rightarrow> pyval \<Rightarrow> verdict" where
  "o_goal_rule gid text loc obs_loc scene_type party_count map_id =
     (if gid = ''start_game''
      then (if scene_type = PStr ''MAP''
            then (if any_in [''your very own adventure'',
                             ''well, i'' @ [CHR 0x27] @ ''ll be expecting you later'',
                             ''come see me''] text then Complete
                  else if contains text ''box'' \<or> contains text ''truck''
                          \<or> contains text ''storage'' then Complete
                  else Return)
            else Return)
      else if gid = ''leave_the_truck''
              \<and> any_in [''your room is upstairs'', ''player'' @ [CHR 0x27] @ ''s house'', ''mom'',
                         ''welcome home'', ''arrived at your new home'', ''downstairs''] text
      then Complete
      else if gid = ''boot_intro''
              \<and> (contains loc ''house'' \<or> contains text ''room is upstairs''
                   \<or> contains text ''your room is upstairs'')
      then Complete
      else if gid = ''house_downstairs_free''
              \<and> (contains loc ''house'' \<or> contains loc ''1f'' \<or> contains text ''downstairs'')
      then Complete
      else if gid = ''go_upstairs''
      then (if any_in [''2f'', ''player_house_2f'', ''player house 2f'',
                       ''player'' @ [CHR 0x27] @ ''s house 2f''] loc
               \<or> any_in [''2f'', ''player_house_2f'', ''player house 2f'',
                          ''player'' @ [CHR 0x27] @ ''s house 2f''] obs_loc
            then Complete else Return)
      else if gid = ''player_bedroom_entered''
              \<and> (contains text ''this is your room'' \<or> contains text ''this is your bedroom''
                   \<or> contains text ''nintendo gamecube'')
      then Complete
      else if gid = ''set_bedroom_clock''
              \<and> (contains text ''set the time'' \<or> contains text ''set the clock''
                   \<or> contains text ''better set it'' \<or> contains text ''clock is set'')
      then Complete
      else if gid = ''return_downstairs''
              \<and> (contains loc ''1f'' \<or> contains text ''downstairs''
                   \<or> (contains loc ''house'' \<and> \<not> contains loc ''2f''))
      then Complete
      else if gid = ''exit_player_house''
              \<and> (contains loc ''littleroot'' \<or> contains text ''outside''
                   \<or> contains text ''route 101'')
      then Complete
      else if gid = ''choose_starter'' \<and> party_count \<ge> 1
      then Complete
      else if gid = ''littleroot_town_explore''
      then Raise TypeError
      else if gid = ''route_101''
              \<and> (contains loc ''route 101'' \<or> contains obs_loc ''route 101''
                   \<or> py_str map_id = ''3'')
      then Complete
      else Fallback)"

text \<open>Sequencing of steps that may raise: the first exception ends the call.\<close>

definition and_then :: "py_error + 'a \<Rightarrow> ('a \<Rightarrow> py_error + 'b) \<Rightarrow> py_error + 'b" where
  "and_then r f = (case r of Inl e \<Rightarrow> Inl e | Inr v \<Rightarrow> f v)"

text \<open>
  The values \<^verbatim>\<open>update_goal_status\<close> computes before it looks at the goal, each with
  the exception its computation can raise: the concatenation with a summary that is not a
  string (\<^verbatim>\<open>TypeError\<close>), \<^verbatim>\<open>.lower()\<close> on a location that is truthy and not a
  string (\<^verbatim>\<open>AttributeError\<close>), and \<^verbatim>\<open>int(...)\<close> of the party count.
\<close>

definition o_observation :: "pyval \<Rightarrow> pyval" where
  "o_observation observation0 =
     (if is_dict observation0 then observation0
      else PDict [(''summary'', PStr (py_str observation0)), (''key_elements'', PStr [])])"

definition o_text :: "pyval \<Rightarrow> py_error + string" where
  "o_text observation =
     (case dget observation ''summary'' (PStr []) of
        PStr summary \<Rightarrow>
          Inr (lower (summary @ '' '' @ py_str (dget observation ''key_elements'' (PStr []))))
      | _ \<Rightarrow> Inl TypeError)"

definition lower_or_empty :: "pyval \<Rightarrow> py_error + string" where
  "lower_or_empty v =
     (case py_or v (PStr []) of PStr t \<Rightarrow> Inr (lower t) | _ \<Rightarrow> Inl AttributeError)"

definition o_mem_ke :: "pyval \<Rightarrow> pyval" where
  "o_mem_ke observation =
     (if is_dict (dget observation ''key_elements'' PNone)
      then dget observation ''key_elements'' PNone else PDict [])"

definition o_party_count :: "ostate \<Rightarrow> py_error + int" where
  "o_party_count m =
     (case os_party m of
        PList party \<Rightarrow> Inr (int (length party))
      | _ \<Rightarrow> py_int (py_or (os_party_count m) (PInt 0)))"

text \<open>The part of \<^verbatim>\<open>update_goal_status\<close> from \<^verbatim>\<open>current = self.get_active_goal()\<close> on.\<close>

definition o_apply_rules ::
  "pyval \<Rightarrow> string \<Rightarrow> string \<Rightarrow> string \<Rightarrow> int \<Rightarrow> ostate \<Rightarrow> py_error + ostate" where
  "o_apply_rules observation text loc obs_loc party_count m =
     (let map_id = py_or (os_map_id m) (dget (o_mem_ke observation) ''map_id'' PNone)
      in case fst (o_get_active_goal m) of
           None \<Rightarrow> Inr m
         | Some i \<Rightarrow>
             (case o_goal_rule (goal_id (os_plan m ! i)) text loc obs_loc
                     (dget observation ''scene_type'' (PStr [])) party_count map_id of
                Complete \<Rightarrow> Inr (o_complete i m)
              | Return \<Rightarrow> Inr m
              | Raise e \<Rightarrow> Inl e
              | Fallback \<Rightarrow>
                  if list_ex (\<lambda>cue. cue \<noteq> [] \<and> contains text (lower cue))
                       (completion_cues (os_plan m ! i))
                  then Inr (o_complete i m)
                  else Inr m))"

text \<open>\<^verbatim>\<open>update_goal_status\<close>; \<open>Inl\<close> is the exception that leaves the function.\<close>

definition o_update_goal_status :: "pyval \<Rightarrow> ostate \<Rightarrow> py_error + ostate" where
  "o_update_goal_status observation0 m =
     and_then (o_text (o_observation observation0)) (\<lambda>text.
     and_then (lower_or_empty (os_location m)) (\<lambda>loc.
     and_then (lower_or_empty (dget (o_mem_ke (o_observation observation0)) ''Location'' PNone))
       (\<lambda>obs_loc.
     and_then (o_party_count m) (\<lambda>party_count.
       o_apply_rules (o_observation observation0) text loc obs_loc party_count m))))"

text \<open>
  A fresh planner and memory with the given plan, and the goal
  \<^verbatim>\<open>littleroot_town_explore\<close> of \<^verbatim>\<open>DEFAULT_EMERALD_LT_PLAN\<close>.
\<close>

definition fresh_ostate :: "goal list \<Rightarrow> ostate" where
  "fresh_ostate plan =
     \<lparr>os_cache = [], os_shadow = [], os_calls = 0, os_plan = plan, os_current_goal = PNone,
      os_location = PNone, os_party = PNone, os_party_count = PNone, os_map_id = PNone,
      os_pending = [], os_local_pending = [], os_last_action = PNone,
      os_last_move_dir = PNone, os_naming_handled = False,
      os_state_keys = [''location'', ''badges'', ''team'', ''progress'', ''blockers'',
        ''last_action'', ''last_seen_scene'', ''long_term_plan'', ''short_term_plan'',
        ''current_goal'', ''exploration'', ''pending_actions'', ''last_ascii_map'',
        ''last_location'', ''last_move_dir'', ''boot_burst_done'']\<rparr>"

definition littleroot_goal :: goal where
  "littleroot_goal =
     \<lparr>goal_id = ''littleroot_town_explore'',
      goal_text = ''Find Professor Birch'' @ [CHR 0x27]
                  @ ''s lab which is next door to your house.'',
      status = ''pending'',
      completion_cues = [''birch'' @ [CHR 0x27] @ ''s lab'', ''go visit prof. birch''],
      movement_only = False\<rparr>"

definition map_observation :: pyval where
  "map_observation =
     PDict [(''scene_type'', PStr ''MAP''), (''summary'', PStr ''Littleroot Town''),
            (''key_elements'', PDict [])]"

section \<open>The planner of \<^verbatim>\<open>agent/openai/planning.py\<close>\<close>

text \<open>
  What one call of \<^verbatim>\<open>decide\<close> obtains from outside the repository: \<open>oe_reply\<close> is
  the text \<^verbatim>\<open>vlm.get_text_query\<close> returns for the prompt of this call (\<^verbatim>\<open>"A"\<close> when
  the call raises), \<open>oe_pick\<close> is the draw of \<^verbatim>\<open>random.choice\<close>, and \<open>oe_eval\<close> is
  what \<^verbatim>\<open>eval\<close> makes of a \<^verbatim>\<open>key_elements\<close> string (\<open>PDict []\<close> when it raises).
\<close>

record o_externals =
  oe_reply :: string
  oe_pick :: "string list \<Rightarrow> string"
  oe_eval :: "string \<Rightarrow> pyval"

text \<open>
  \<^verbatim>\<open>_hash_context\<close>: the key text of the context. The SHA-1 digest of the key is
  modelled by the key itself, so equal contexts have equal hashes. \<open>os_state_keys\<close> holds
  \<^verbatim>\<open>sorted(memory.state.keys())\<close>.
\<close>

definition hash_context :: "pyval \<Rightarrow> ostate \<Rightarrow> string" where
  "hash_context observation m =
     (let st = (if is_dict observation then dget observation ''scene_type'' (PStr [])
                else PStr []);
          summary = (if is_dict observation then dget observation ''summary'' (PStr [])
                     else PStr (py_str observation));
          active_goal_id = (case fst (o_get_active_goal m) of
                              Some i \<Rightarrow> goal_id (os_plan m ! i) | None \<Rightarrow> ''no_goal'')
      in py_str st @ ''|'' @ py_str summary @ ''|'' @ active_goal_id @ ''|''
         @ py_repr (PList (map PStr (os_state_keys m))))"

definition o_enqueue_actions :: "pyval \<Rightarrow> ostate \<Rightarrow> ostate" where
  "o_enqueue_actions actions m =
     (let items = normalize_primitives actions
      in if items = [] then m else m\<lparr>os_pending := os_pending m @ items\<rparr>)"

definition o_note_action :: "string \<Rightarrow> ostate \<Rightarrow> ostate" where
  "o_note_action act m =
     (if act \<in> set DIRECTIONS
      then m\<lparr>os_last_action := PStr act, os_last_move_dir := PStr act\<rparr>
      else m\<lparr>os_last_action := PStr act\<rparr>)"

definition o_pop_next_action :: "ostate \<Rightarrow> string option \<times> ostate" where
  "o_pop_next_action m =
     (case os_pending m of
        act # rest \<Rightarrow> (Some act, o_note_action act (m\<lparr>os_pending := rest\<rparr>))
      | [] \<Rightarrow>
          (case os_local_pending m of
             act # rest \<Rightarrow> (Some act, o_note_action act (m\<lparr>os_local_pending := rest\<rparr>))
           | [] \<Rightarrow> (None, m)))"

subsection \<open>Reading the oracle's reply\<close>

definition is_upper_letter :: "char \<Rightarrow> bool" where
  "is_upper_letter c = (c \<in> set ''ABCDEFGHIJKLMNOPQRSTUVWXYZ'')"

text \<open>\<^verbatim>\<open>re.search\<close>: the first position of the text at which a pattern matches.\<close>

fun search_from :: "(string \<Rightarrow> 'a option) \<Rightarrow> string \<Rightarrow> 'a option" where
  "search_from f [] = f []"
| "search_from f (c # cs) =
     (case f (c # cs) of Some r \<Rightarrow> Some r | None \<Rightarrow> search_from f cs)"

text \<open>
  \<^verbatim>\<open>ACTION:\s*([A-Z0-9\s,]+)\<close> at the head of a text; the result is the group,
  stripped. White space is in the class of the group, so the match takes the longest
  run of class characters after the colon, and fails when the run is empty.
\<close>

definition match_action :: "string \<Rightarrow> string option" where
  "match_action s =
     (if is_prefix ''ACTION:'' s
      then (let run = takeWhile (\<lambda>c. is_upper_letter c \<or> is_digit c \<or> is_space c \<or> c = CHR '','')
                        (drop 7 s)
            in if run = [] then None else Some (strip run))
      else None)"

text \<open>
  \<^verbatim>\<open>MOVE\s+(UP|DOWN|LEFT|RIGHT)\s+(\d+)\<close> at the head of a text: the direction and
  \<^verbatim>\<open>max(1, min(3, int(count)))\<close>.
\<close>

definition match_move :: "string \<Rightarrow> (string \<times> nat) option" where
  "match_move s =
     (if is_prefix ''MOVE'' s \<and> takeWhile is_space (drop 4 s) \<noteq> []
      then (let r = dropWhile is_space (drop 4 s)
            in case filter (\<lambda>d. is_prefix d r) DIRECTIONS of
                 [] \<Rightarrow> None
               | d # ds \<Rightarrow>
                   (let r' = drop (length d) r; digits = takeWhile is_digit (dropWhile is_space r')
                    in if takeWhile is_space r' \<noteq> [] \<and> digits \<noteq> []
                       then Some (d, max 1 (min 3 (nat_of_digits digits)))
                       else None))
      else None)"

text \<open>\<^verbatim>\<open>re.findall(r"[A-Z]+", txt)\<close>: the maximal runs of capital letters.\<close>

function findall_upper :: "string \<Rightarrow> string list" where
  "findall_upper [] = []"
| "findall_upper (c # cs) =
     (if is_upper_letter c
      then (c # takeWhile is_upper_letter cs) # findall_upper (dropWhile is_upper_letter cs)
      else findall_upper cs)"
  by pat_completeness auto
termination
  by (relation "measure length") (auto simp add: length_dropWhile_le less_Suc_eq_le)

text \<open>\<^verbatim>\<open>txt.split(",")\<close>.\<close>

fun split_on :: "char \<Rightarrow> string \<Rightarrow> string list" where
  "split_on sep [] = [[]]"
| "split_on sep (c # cs) =
     (if c = sep then [] # split_on sep cs
      else (case split_on sep cs of p # ps \<Rightarrow> (c # p) # ps | [] \<Rightarrow> [[c]]))"

text \<open>The first token of a text that is a button name, if any.\<close>

definition first_button :: "string \<Rightarrow> string option" where
  "first_button txt =
     (case filter (\<lambda>t. t \<in> set ALLOWED_BTNS) (findall_upper txt) of
        t # ts \<Rightarrow> Some t | [] \<Rightarrow> None)"

text \<open>The actions queued for the parts of a comma-separated reply after the first.\<close>

definition followup_actions :: "string list \<Rightarrow> string list" where
  "followup_actions parts =
     concat (map (\<lambda>p. case search_from match_move p of
                         Some (d, n) \<Rightarrow> replicate n d
                       | None \<Rightarrow> (case first_button p of Some t \<Rightarrow> [t] | None \<Rightarrow> []))
                 parts)"

text \<open>
  From the oracle's reply to the returned action, with the actions it queues:
  \<open>reply_text\<close> is \<^verbatim>\<open>txt\<close> after the \<^verbatim>\<open>ACTION:\<close> pattern, \<open>queue_followups\<close>
  queues what the parts after the first comma stand for, \<open>first_part\<close> is the text that
  gives the returned action.
\<close>

definition reply_text :: "string \<Rightarrow> string" where
  "reply_text out =
     (let txt = strip (upper out)
      in case search_from match_action txt of Some g \<Rightarrow> g | None \<Rightarrow> txt)"

definition queue_followups :: "string \<Rightarrow> ostate \<Rightarrow> ostate" where
  "queue_followups txt m =
     (let queue_actions = followup_actions (tl (map strip (split_on (CHR '','') txt)))
      in if CHR '','' \<in> set txt \<and> queue_actions \<noteq> []
         then o_enqueue_actions (PList (map PStr queue_actions)) m else m)"

definition first_part :: "string \<Rightarrow> string" where
  "first_part txt =
     (if CHR '','' \<in> set txt then hd (map strip (split_on (CHR '','') txt)) else txt)"

definition o_parse_reply ::
  "o_externals \<Rightarrow> pyval \<Rightarrow> string \<Rightarrow> ostate \<Rightarrow> o_decision \<times> ostate" where
  "o_parse_reply ext scene_type out m =
     (let m1 = queue_followups (reply_text out) m
      in case search_from match_move (first_part (reply_text out)) of
           Some (d, n) \<Rightarrow>
             (\<lparr>od_action = PStr d, od_reason = None\<rparr>,
              if n > 1 then o_enqueue_actions (PList (map PStr (replicate (n - 1) d))) m1 else m1)
         | None \<Rightarrow>
             (case first_button (first_part (reply_text out)) of
                Some t \<Rightarrow>
                  if scene_type = PStr ''MAP'' \<and> t = ''A''
                  then (\<lparr>od_action = PStr (oe_pick ext DIRECTIONS), od_reason = None\<rparr>, m1)
                  else (\<lparr>od_action = PStr t, od_reason = None\<rparr>, m1)
              | None \<Rightarrow>
                  (\<lparr>od_action = (if scene_type = PStr ''MAP'' then PStr (oe_pick ext DIRECTIONS)
                                  else PStr ''A''),
                    od_reason = None\<rparr>, m1)))"

subsection \<open>\<^verbatim>\<open>decide\<close>\<close>

text \<open>
  The scene is dialogue-like when its type, upper-cased, is \<^verbatim>\<open>DIALOGUE\<close> or
  \<^verbatim>\<open>CUTSCENE\<close>, or when the summary or the key elements mention a dialogue box.
\<close>

definition is_dialog_like :: "pyval \<Rightarrow> string \<Rightarrow> pyval \<Rightarrow> bool" where
  "is_dialog_like scene_type summary_lower key_elements =
     (let st_upper = (case py_or scene_type (PStr ''UNKNOWN'') of
                        PStr s \<Rightarrow> upper s | _ \<Rightarrow> ''UNKNOWN'')
      in st_upper \<in> set [''DIALOGUE'', ''CUTSCENE'']
         \<or> any_in [''dialogue box'', ''dialog box'', ''speech bubble'', ''text box'',
                    ''message box'', ''conversation'', ''talking'', ''is speaking'',
                    ''is saying''] summary_lower
         \<or> (is_dict key_elements
              \<and> any_in [''dialogue_box'', ''speech_bubble'', ''text_box'']
                   (lower (py_str key_elements))))"

text \<open>
  \<^verbatim>\<open>_build_navigation_context\<close> only makes text for the prompt; what matters to
  its caller is whether it raises. It raises when it draws a local map from a
  walkability dictionary whose keys are texts (a key that is not two characters long
  cannot be unpacked, and bounds that are characters cannot be added to), and when a
  player coordinate that is not a number is added to an offset.
\<close>

definition is_number :: "pyval \<Rightarrow> bool" where
  "is_number v = (case v of PInt i \<Rightarrow> True | PBool b \<Rightarrow> True | _ \<Rightarrow> False)"

definition nav_player_pos :: "pyval \<Rightarrow> pyval \<Rightarrow> pyval \<times> pyval" where
  "nav_player_pos obs_st key_elements =
     (let player_info = (if is_dict obs_st
                         then py_or (dget obs_st ''player'' PNone) (PDict []) else PNone);
          pos = (if is_dict player_info
                 then py_or (py_or (dget player_info ''position'' PNone)
                                   (dget player_info ''coordinates'' PNone))
                            (dget player_info ''tile_coordinates'' PNone)
                 else PNone);
          px = (if is_dict pos then dget pos ''x'' PNone else PNone);
          py = (if is_dict pos then dget pos ''y'' PNone else PNone)
      in if is_dict key_elements
         then (if px = PNone then dget key_elements ''player_x'' PNone else px,
               if py = PNone then dget key_elements ''player_y'' PNone else py)
         else (px, py))"

definition nav_map_info :: "pyval \<Rightarrow> pyval" where
  "nav_map_info obs_st =
     (if is_dict obs_st then py_or (dget obs_st ''map'' PNone) (PDict []) else PNone)"

definition nav_ascii_map :: "pyval \<Rightarrow> pyval" where
  "nav_ascii_map obs_st =
     (let map_info = nav_map_info obs_st
      in if is_dict map_info
         then py_or (py_or (py_or (dget map_info ''visual_map'' PNone)
                                  (dget map_info ''ascii_map'' PNone))
                           (dget map_info ''ascii'' PNone))
                    (dget map_info ''enhanced_text_map'' PNone)
         else PNone)"

definition nav_walkable :: "pyval \<Rightarrow> pyval" where
  "nav_walkable obs_st =
     (let map_info = nav_map_info obs_st
      in if is_dict map_info
         then py_or (dget map_info ''walkable'' PNone) (dget map_info ''traversability'' PNone)
         else PNone)"

definition ascii_from_walkable_error :: "pyval \<Rightarrow> pyval \<Rightarrow> pyval \<Rightarrow> py_error option" where
  "ascii_from_walkable_error w px py =
     (case w of
        PDict kvs \<Rightarrow>
          if kvs = [] then None
          else if list_ex (\<lambda>kv. length (fst kv) \<noteq> 2) kvs then Some ValueError
          else if px \<noteq> PNone \<and> py \<noteq> PNone
          then (if is_number px \<and> is_number py then None else Some TypeError)
          else Some TypeError
      | _ \<Rightarrow> None)"

definition nav_context_error :: "pyval \<Rightarrow> pyval \<Rightarrow> py_error option" where
  "nav_context_error obs_st key_elements =
     (let (px, py) = nav_player_pos obs_st key_elements;
          walkable = nav_walkable obs_st
      in case (if \<not> truthy (nav_ascii_map obs_st) \<and> truthy walkable
               then ascii_from_walkable_error walkable px py else None) of
           Some e \<Rightarrow> Some e
         | None \<Rightarrow>
             if truthy walkable \<and> px \<noteq> PNone \<and> py \<noteq> PNone
                \<and> \<not> (is_number px \<and> is_number py)
             then Some TypeError else None)"

text \<open>
  The part of \<^verbatim>\<open>decide\<close> after the queues: the fast paths for title, battle, naming
  and dialogue, the navigation context, the truck heuristic, and the call of the
  oracle, counted in \<open>os_calls\<close>.
\<close>

definition o_decide_fresh ::
  "o_externals \<Rightarrow> pyval \<Rightarrow> string \<Rightarrow> pyval \<Rightarrow> pyval \<Rightarrow> ostate
     \<Rightarrow> py_error + (o_decision \<times> ostate)" where
  "o_decide_fresh ext scene_type summary_lower obs_st key_elements m =
     (if scene_type = PStr ''TITLE''
      then Inr (\<lparr>od_action = PStr ''A'', od_reason = Some ''title_screen''\<rparr>,
            o_enqueue_actions (PList (map PStr (replicate 9 ''A''))) m)
      else if scene_type = PStr ''BATTLE''
      then Inr (\<lparr>od_action = PStr ''A'', od_reason = Some ''autoA_battle''\<rparr>, m)
      else if scene_type = PStr ''MENU'' \<and> \<not> os_naming_handled m
              \<and> (any_in [''name'', ''enter'', ''keyboard'', ''character'', ''nickname'', ''input'']
                    summary_lower
                   \<or> (is_dict key_elements
                        \<and> any_in [''name'', ''keyboard'', ''input'', ''naming'', ''nickname'',
                                   ''character''] (lower (py_str key_elements))))
      then Inr (\<lparr>od_action = PStr ''START'', od_reason = Some ''naming_completion''\<rparr>,
            o_enqueue_actions (PList (map PStr [''A'', ''A'', ''A'', ''START'']))
              (m\<lparr>os_naming_handled := True\<rparr>))
      else if is_dialog_like scene_type summary_lower key_elements
      then Inr (\<lparr>od_action = PStr ''A'', od_reason = Some ''autoA_dialogue_or_cutscene''\<rparr>, m)
      else
        (let gid = (case fst (o_get_active_goal m) of
                      Some i \<Rightarrow> (if goal_id (os_plan m ! i) = [] then ''no_goal''
                                 else goal_id (os_plan m ! i))
                    | None \<Rightarrow> ''no_goal'')
         in case nav_context_error obs_st key_elements of
              Some e \<Rightarrow> Inl e
            | None \<Rightarrow>
                if contains summary_lower ''truck''
                   \<or> (contains summary_lower ''box'' \<and> contains summary_lower ''storage'')
                then (if gid \<in> set [''leave_the_truck'', ''start_game'']
                      then Inr (\<lparr>od_action = PStr ''RIGHT'', od_reason = Some ''truck_exit''\<rparr>, m)
                      else Inr (\<lparr>od_action = PStr (oe_pick ext [''RIGHT'', ''RIGHT'', ''DOWN'', ''LEFT'']),
                                 od_reason = Some ''truck_explore''\<rparr>, m))
                else Inr (o_parse_reply ext scene_type (oe_reply ext)
                            (m\<lparr>os_calls := os_calls m + 1\<rparr>))))"

text \<open>
  \<^verbatim>\<open>decide\<close>. The cache is read at the head of the call; no statement of the class
  stores into \<^verbatim>\<open>context_cache\<close>. An exception inside \<^verbatim>\<open>update_goal_status\<close> is
  caught and printed; it is raised before the function writes anything.
\<close>

definition o_decide :: "o_externals \<Rightarrow> pyval \<Rightarrow> ostate \<Rightarrow> py_error + (o_decision \<times> ostate)" where
  "o_decide ext observation m =
     (let obs = py_or observation (PDict [])
      in if \<not> is_dict obs then Inl AttributeError
         else
           (let scene_type = dget obs ''scene_type'' (PStr ''UNKNOWN'');
                summary = py_or (dget obs ''summary'' PNone) (PStr [])
            in case map_of (os_cache m) (hash_context observation m) of
                 Some cached \<Rightarrow> Inr (cached, m)
               | None \<Rightarrow>
                   (let m1 = (case o_update_goal_status observation m of
                                Inr m' \<Rightarrow> m' | Inl e \<Rightarrow> m)
                    in case summary of
                         PStr summary_text \<Rightarrow>
                           (let summary_lower = lower summary_text;
                                obs_st = py_or (dget obs ''state'' PNone) (PDict []);
                                ke0 = py_or (dget obs ''key_elements'' PNone) (PDict []);
                                key_elements =
                                  (if is_dict ke0 then ke0
                                   else (case ke0 of PStr s \<Rightarrow> oe_eval ext s | _ \<Rightarrow> PDict []));
                                (nxt, m2) = o_pop_next_action m1
                            in if (case nxt of Some a \<Rightarrow> a \<noteq> [] | None \<Rightarrow> False)
                               then Inr (\<lparr>od_action = (case nxt of Some a \<Rightarrow> PStr a | None \<Rightarrow> PNone),
                                          od_reason = Some ''queued''\<rparr>, m2)
                               else
                                 (case os_shadow m2 of
                                    a # rest \<Rightarrow>
                                      if a \<noteq> []
                                      then Inr (\<lparr>od_action = PStr a, od_reason = Some ''shadow_queue''\<rparr>,
                                                m2\<lparr>os_shadow := rest\<rparr>)
                                      else o_decide_fresh ext scene_type summary_lower obs_st
                                             key_elements (m2\<lparr>os_shadow := rest\<rparr>)
                                  | [] \<Rightarrow>
                                      o_decide_fresh ext scene_type summary_lower obs_st
                                        key_elements m2))
                       | _ \<Rightarrow> Inl AttributeError)))"

text \<open>
  Externals for an example: the oracle answers \<^verbatim>\<open>UP\<close> to one call and
  \<^verbatim>\<open>DOWN\<close> to another.
\<close>

definition up_externals :: o_externals where
  "up_externals = \<lparr>oe_reply = ''UP'', oe_pick = (\<lambda>xs. ''UP''), oe_eval = (\<lambda>s. PDict [])\<rparr>"

definition down_externals :: o_externals where
  "down_externals = \<lparr>oe_reply = ''DOWN'', oe_pick = (\<lambda>xs. ''UP''), oe_eval = (\<lambda>s. PDict [])\<rparr>"

section \<open>Properties of the action queue\<close>




lemma pop_many_pending: "pending (snd (pop_many n m)) = drop n (pending m)"
proof (induction n arbitrary: m)
  case 0
  show ?case by simp
next
  case (Suc n)
  show ?case
  proof (cases "pending m")
    case Nil
    then show ?thesis
      using Suc.IH [of m] by (simp add: pop_next_action_def split_def Let_def)
  next
    case (Cons a rest)
    then show ?thesis
      using Suc.IH [of "m\<lparr>pending := rest, last_action := PStr a\<rparr>"]
      by (simp add: pop_next_action_def split_def Let_def)
  qed
qed





section \<open>Properties of the goal tracker\<close>

lemma first_pending_Some:
  "first_pending k gs = Some i \<Longrightarrow>
     k \<le> i \<and> i < k + length gs \<and> status (gs ! (i - k)) = ''pending''
     \<and> (\<forall>j. k \<le> j \<and> j < i \<longrightarrow> status (gs ! (j - k)) \<noteq> ''pending'')"
proof (induction gs arbitrary: k)
  case Nil
  then show ?case by simp
next
  case (Cons g gs)
  show ?case
  proof (cases "status g = ''pending''")
    case True
    with Cons.prems show ?thesis by simp
  next
    case False
    with Cons.prems have rec: "first_pending (Suc k) gs = Some i" by simp
    from Cons.IH [OF rec] have ih: "Suc k \<le> i" "i < Suc k + length gs"
      "status (gs ! (i - Suc k)) = ''pending''"
      "\<forall>j. Suc k \<le> j \<and> j < i \<longrightarrow> status (gs ! (j - Suc k)) \<noteq> ''pending''"
      by auto
    have nth: "\<And>j. Suc k \<le> j \<Longrightarrow> (g # gs) ! (j - k) = gs ! (j - Suc k)"
      by (simp add: Suc_diff_le)
    show ?thesis
    proof (intro conjI allI impI)
      show "k \<le> i" using ih(1) by simp
      show "i < k + length (g # gs)" using ih(2) by simp
      show "status ((g # gs) ! (i - k)) = ''pending''" using ih(1,3) nth by simp
      fix j assume j: "k \<le> j \<and> j < i"
      show "status ((g # gs) ! (j - k)) \<noteq> ''pending''"
      proof (cases "j = k")
        case True
        then show ?thesis using False by simp
      next
        case False
        with j have "Suc k \<le> j" by simp
        then show ?thesis using ih(4) j nth by simp
      qed
    qed
  qed
qed

lemma first_pending_None:
  "first_pending k gs = None \<Longrightarrow> \<forall>g \<in> set gs. status g \<noteq> ''pending''"
  by (induction gs arbitrary: k) (auto split: if_splits)

lemma first_with_id_Some:
  "first_with_id gid k gs = Some i \<Longrightarrow>
     k \<le> i \<and> i < k + length gs \<and> goal_id (gs ! (i - k)) = gid"
proof (induction gs arbitrary: k)
  case Nil
  then show ?case by simp
next
  case (Cons g gs)
  show ?case
  proof (cases "goal_id g = gid")
    case True
    with Cons.prems show ?thesis by simp
  next
    case False
    with Cons.prems have rec: "first_with_id gid (Suc k) gs = Some i" by simp
    from Cons.IH [OF rec] show ?thesis by (auto simp add: Suc_diff_le)
  qed
qed

lemma get_active_goal_plan [simp]:
  "long_term_plan (snd (get_active_goal m)) = long_term_plan m"
  by (simp add: get_active_goal_def split: option.splits)

lemma goal_at_cong:
  "long_term_plan m' = long_term_plan m \<Longrightarrow> goal_at m' p = goal_at m p"
  by (cases p) (simp_all add: goal_at_def)

lemma get_active_goal_idem:
  "get_active_goal (snd (get_active_goal m)) = get_active_goal m"
proof (cases "goal_at m (current_goal m)")
  case (Some g)
  then show ?thesis by (simp add: get_active_goal_def)
next
  case None
  show ?thesis
  proof (cases "first_pending 0 (long_term_plan m)")
    case fp: None
    have "get_active_goal m = (NoGoal, m)"
      using None fp by (simp add: get_active_goal_def)
    then show ?thesis by simp
  next
    case (Some i)
    from first_pending_Some [OF Some] have lt: "i < length (long_term_plan m)" by simp
    have eq: "get_active_goal m = (InPlan i, m\<lparr>current_goal := InPlan i\<rparr>)"
      using None Some by (simp add: get_active_goal_def)
    have "goal_at (m\<lparr>current_goal := InPlan i\<rparr>) (InPlan i) = Some (long_term_plan m ! i)"
      using lt by (simp add: goal_at_def)
    then have "get_active_goal (m\<lparr>current_goal := InPlan i\<rparr>)
                 = (InPlan i, m\<lparr>current_goal := InPlan i\<rparr>)"
      by (simp add: get_active_goal_def)
    with eq show ?thesis by simp
  qed
qed

lemma get_active_goal_returns_current:
  "fst (get_active_goal m) = NoGoal \<or> fst (get_active_goal m) = current_goal (snd (get_active_goal m))"
  by (simp add: get_active_goal_def split: option.splits)

lemma goal_step_refl: "goal_step g g"
  by (simp add: goal_step_def)

lemma goal_step_trans: "goal_step a b \<Longrightarrow> goal_step b c \<Longrightarrow> goal_step a c"
  by (auto simp add: goal_step_def)

lemma plan_step_refl: "list_all2 goal_step gs gs"
  by (simp add: list_all2_refl goal_step_refl)

lemma plan_step_trans:
  "list_all2 goal_step a b \<Longrightarrow> list_all2 goal_step b c \<Longrightarrow> list_all2 goal_step a c"
  using goal_step_trans by (rule list_all2_trans)

lemma plan_step_update:
  "i < length gs \<Longrightarrow> list_all2 goal_step gs (gs[i := (gs ! i)\<lparr>status := ''completed''\<rparr>])"
  by (simp add: list_all2_conv_all_nth nth_list_update goal_step_def)

lemma complete_rejected:
  assumes "\<forall>c. active_goal m = Some c \<longrightarrow> goal_id c \<noteq> y"
  shows "complete_current_goal y m = snd (get_active_goal m)"
  using assms
  by (auto simp add: complete_current_goal_def active_goal_def split_def Let_def
           split: option.splits)

lemma complete_cases:
  "complete_current_goal gid m = snd (get_active_goal m)
   \<or> (\<exists>i c. active_goal m = Some c \<and> goal_id c = gid
         \<and> first_with_id gid 0 (long_term_plan m) = Some i
         \<and> long_term_plan (complete_current_goal gid m) =
             (long_term_plan m)[i := (long_term_plan m ! i)\<lparr>status := ''completed''\<rparr>]
         \<and> current_goal (complete_current_goal gid m) =
             (case first_pending (Suc i) (drop (Suc i)
                     ((long_term_plan m)[i := (long_term_plan m ! i)\<lparr>status := ''completed''\<rparr>])) of
                Some j \<Rightarrow> InPlan j | None \<Rightarrow> NoGoal))"
  by (auto simp add: complete_current_goal_def active_goal_def split_def Let_def
           split: option.splits)

lemma complete_plan_step:
  "list_all2 goal_step (long_term_plan m) (long_term_plan (complete_current_goal gid m))"
proof -
  from complete_cases [of gid m] show ?thesis
  proof
    assume "complete_current_goal gid m = snd (get_active_goal m)"
    then show ?thesis by (simp add: plan_step_refl)
  next
    assume "\<exists>i c. active_goal m = Some c \<and> goal_id c = gid
         \<and> first_with_id gid 0 (long_term_plan m) = Some i
         \<and> long_term_plan (complete_current_goal gid m) =
             (long_term_plan m)[i := (long_term_plan m ! i)\<lparr>status := ''completed''\<rparr>]
         \<and> current_goal (complete_current_goal gid m) =
             (case first_pending (Suc i) (drop (Suc i)
                     ((long_term_plan m)[i := (long_term_plan m ! i)\<lparr>status := ''completed''\<rparr>])) of
                Some j \<Rightarrow> InPlan j | None \<Rightarrow> NoGoal)"
    then obtain i where i: "first_with_id gid 0 (long_term_plan m) = Some i"
      and p: "long_term_plan (complete_current_goal gid m) =
             (long_term_plan m)[i := (long_term_plan m ! i)\<lparr>status := ''completed''\<rparr>]"
      by blast
    from first_with_id_Some [OF i] have "i < length (long_term_plan m)" by simp
    then show ?thesis using p by (simp add: plan_step_update)
  qed
qed

lemma update_goal_status_cases:
  "snd (update_goal_status obs m) = m
   \<or> snd (update_goal_status obs m) = snd (get_active_goal m)
   \<or> (\<exists>gid. snd (update_goal_status obs m) = complete_current_goal gid (snd (get_active_goal m)))"
proof (cases "as_observation obs")
  case None
  then show ?thesis by (simp add: update_goal_status_def)
next
  case (Some observation)
  show ?thesis
  proof (cases "goal_at (snd (get_active_goal m)) (fst (get_active_goal m))")
    case None
    with Some show ?thesis by (simp add: update_goal_status_def split_def Let_def)
  next
    case c: (Some c)
    show ?thesis
    proof (cases "dget observation ''summary'' (PStr [])")
      case (PStr summary)
      with Some c show ?thesis by (auto simp add: update_goal_status_def split_def Let_def)
    qed (use Some c in \<open>simp_all add: update_goal_status_def split_def Let_def\<close>)
  qed
qed

lemma update_goal_status_plan_step:
  "list_all2 goal_step (long_term_plan m) (long_term_plan (snd (update_goal_status obs m)))"
proof -
  from update_goal_status_cases [of obs m] show ?thesis
  proof (elim disjE exE)
    fix gid
    assume "snd (update_goal_status obs m) = complete_current_goal gid (snd (get_active_goal m))"
    then show ?thesis
      using complete_plan_step [of "snd (get_active_goal m)" gid] by simp
  qed (simp_all add: plan_step_refl)
qed

lemma apply_goal_op_plan_step:
  "list_all2 goal_step (long_term_plan m) (long_term_plan (apply_goal_op x m))"
  by (cases x) (simp_all add: plan_step_refl complete_plan_step update_goal_status_plan_step)

lemma apply_goal_ops_plan_step:
  "list_all2 goal_step (long_term_plan m) (long_term_plan (apply_goal_ops xs m))"
proof (induction xs arbitrary: m)
  case Nil
  show ?case by (simp add: plan_step_refl)
next
  case (Cons x xs)
  show ?case
    using plan_step_trans [OF apply_goal_op_plan_step [of m x] Cons.IH [of "apply_goal_op x m"]]
    by simp
qed

lemma get_active_goal_repeat:
  "((\<lambda>s. snd (get_active_goal s)) ^^ Suc n) m = snd (get_active_goal m)"
proof (induction n)
  case 0
  show ?case by simp
next
  case (Suc n)
  have "((\<lambda>s. snd (get_active_goal s)) ^^ Suc (Suc n)) m
          = snd (get_active_goal (((\<lambda>s. snd (get_active_goal s)) ^^ Suc n) m))"
    by simp
  also have "\<dots> = snd (get_active_goal (snd (get_active_goal m)))"
    using Suc.IH by simp
  also have "\<dots> = snd (get_active_goal m)"
    by (simp add: get_active_goal_idem)
  finally show ?case .
qed

lemma get_active_goal_activates:
  assumes "goal_at m (current_goal m) = None"
  shows "case first_pending 0 (long_term_plan m) of
           Some i \<Rightarrow> get_active_goal m = (InPlan i, m\<lparr>current_goal := InPlan i\<rparr>)
                     \<and> i < length (long_term_plan m)
                     \<and> status (long_term_plan m ! i) = ''pending''
                     \<and> (\<forall>j<i. status (long_term_plan m ! j) \<noteq> ''pending'')
         | None \<Rightarrow> get_active_goal m = (NoGoal, m)"
proof (cases "first_pending 0 (long_term_plan m)")
  case None
  with assms show ?thesis by (simp add: get_active_goal_def)
next
  case (Some i)
  from first_pending_Some [OF Some] assms Some show ?thesis
    by (simp add: get_active_goal_def)
qed

lemma first_not_completed_Some:
  "first_not_completed k gs = Some i \<Longrightarrow>
     k \<le> i \<and> i < k + length gs \<and> status (gs ! (i - k)) \<noteq> ''completed''
     \<and> (\<forall>j. k \<le> j \<and> j < i \<longrightarrow> status (gs ! (j - k)) = ''completed'')"
proof (induction gs arbitrary: k)
  case Nil
  then show ?case by simp
next
  case (Cons g gs)
  show ?case
  proof (cases "status g \<noteq> ''completed''")
    case True
    with Cons.prems show ?thesis by simp
  next
    case False
    with Cons.prems have rec: "first_not_completed (Suc k) gs = Some i" by simp
    from Cons.IH [OF rec] have ih: "Suc k \<le> i" "i < Suc k + length gs"
      "status (gs ! (i - Suc k)) \<noteq> ''completed''"
      "\<forall>j. Suc k \<le> j \<and> j < i \<longrightarrow> status (gs ! (j - Suc k)) = ''completed''"
      by auto
    have nth: "\<And>j. Suc k \<le> j \<Longrightarrow> (g # gs) ! (j - k) = gs ! (j - Suc k)"
      by (simp add: Suc_diff_le)
    have all: "status ((g # gs) ! (j - k)) = ''completed''" if "k \<le> j \<and> j < i" for j
    proof (cases "j = k")
      case True
      with False show ?thesis by simp
    next
      case False
      with that have "Suc k \<le> j" by simp
      with ih(4) that nth [of j] show ?thesis by simp
    qed
    from ih nth [of i] all show ?thesis by simp
  qed
qed

lemma first_not_completed_None:
  "first_not_completed k gs = None \<Longrightarrow> list_all (\<lambda>g. status g = ''completed'') gs"
  by (induction gs arbitrary: k) (simp_all split: if_splits)

lemma o_get_active_goal_result:
  "case fst (o_get_active_goal om) of
     Some i \<Rightarrow> i < length (os_plan om) \<and> status (os_plan om ! i) \<noteq> ''completed''
               \<and> list_all (\<lambda>g. status g = ''completed'') (take i (os_plan om))
   | None \<Rightarrow> list_all (\<lambda>g. status g = ''completed'') (os_plan om)"
proof (cases "first_not_completed 0 (os_plan om)")
  case None
  from first_not_completed_None [OF None] None show ?thesis
    by (simp add: o_get_active_goal_def)
next
  case (Some i)
  from first_not_completed_Some [OF Some]
  have i: "i < length (os_plan om)" and st: "status (os_plan om ! i) \<noteq> ''completed''"
    and before: "\<forall>j. j < i \<longrightarrow> status (os_plan om ! j) = ''completed''"
    by simp_all
  have "list_all (\<lambda>g. status g = ''completed'') (take i (os_plan om))"
    unfolding list_all_length using before i by simp
  with i st Some show ?thesis by (simp add: o_get_active_goal_def)
qed

text \<open>
  C8, as amended (idempotent \<^verbatim>\<open>get_active_goal\<close>, in both trackers). In
  \<^verbatim>\<open>agent/deprecated/memory.py\<close>: a call of \<^verbatim>\<open>get_active_goal\<close> right after another
  returns the same goal object and leaves the memory as the first call left it, and so
  does every later call while nothing else changes the memory. When a current goal is
  set it is returned and nothing is written. When none is set, the first goal of the
  plan whose status is \<^verbatim>\<open>pending\<close> becomes the current goal and is returned; with no
  pending goal the result is \<^verbatim>\<open>None\<close> and nothing is written. In
  \<^verbatim>\<open>agent/openai/memory.py\<close>: \<^verbatim>\<open>get_active_goal\<close> writes nothing at all, so a
  repeated call returns the same goal; the goal is the first of the plan whose status is
  not \<^verbatim>\<open>completed\<close>, every goal before it being completed, and \<^verbatim>\<open>None\<close> when
  every goal is completed.
\<close>

theorem get_active_goal_idempotent:
  "get_active_goal (snd (get_active_goal m)) = get_active_goal m
   \<and> get_active_goal (((\<lambda>s. snd (get_active_goal s)) ^^ Suc n) m) = get_active_goal m
   \<and> (goal_at m (current_goal m) \<noteq> None \<longrightarrow> get_active_goal m = (current_goal m, m))
   \<and> (goal_at m (current_goal m) = None \<longrightarrow>
        (case first_pending 0 (long_term_plan m) of
           Some i \<Rightarrow> get_active_goal m = (InPlan i, m\<lparr>current_goal := InPlan i\<rparr>)
                     \<and> i < length (long_term_plan m)
                     \<and> status (long_term_plan m ! i) = ''pending''
                     \<and> (\<forall>j<i. status (long_term_plan m ! j) \<noteq> ''pending'')
         | None \<Rightarrow> get_active_goal m = (NoGoal, m)))
   \<and> snd (o_get_active_goal om) = om
   \<and> o_get_active_goal (snd (o_get_active_goal om)) = o_get_active_goal om
   \<and> (case fst (o_get_active_goal om) of
         Some i \<Rightarrow> i < length (os_plan om) \<and> status (os_plan om ! i) \<noteq> ''completed''
                   \<and> list_all (\<lambda>g. status g = ''completed'') (take i (os_plan om))
       | None \<Rightarrow> list_all (\<lambda>g. status g = ''completed'') (os_plan om))"
proof -
  have c1: "get_active_goal (snd (get_active_goal m)) = get_active_goal m"
    by (rule get_active_goal_idem)
  have c2: "get_active_goal (((\<lambda>s. snd (get_active_goal s)) ^^ Suc n) m) = get_active_goal m"
    by (simp only: get_active_goal_repeat get_active_goal_idem)
  have c3: "goal_at m (current_goal m) \<noteq> None \<longrightarrow> get_active_goal m = (current_goal m, m)"
    by (auto simp add: get_active_goal_def)
  have c4: "goal_at m (current_goal m) = None \<longrightarrow>
        (case first_pending 0 (long_term_plan m) of
           Some i \<Rightarrow> get_active_goal m = (InPlan i, m\<lparr>current_goal := InPlan i\<rparr>)
                     \<and> i < length (long_term_plan m)
                     \<and> status (long_term_plan m ! i) = ''pending''
                     \<and> (\<forall>j<i. status (long_term_plan m ! j) \<noteq> ''pending'')
         | None \<Rightarrow> get_active_goal m = (NoGoal, m))"
    by (intro impI) (rule get_active_goal_activates)
  have c5: "snd (o_get_active_goal om) = om"
    by (simp add: o_get_active_goal_def)
  have c6: "o_get_active_goal (snd (o_get_active_goal om)) = o_get_active_goal om"
    by (simp add: o_get_active_goal_def)
  note c7 = o_get_active_goal_result [of om]
  from c1 c2 c3 c4 c5 c6 c7 show ?thesis by (intro conjI)
qed

lemma fresh_xy_eval:
  "get_active_goal (fresh_memory plan_xy) = (InPlan 0, (fresh_memory plan_xy)\<lparr>current_goal := InPlan 0\<rparr>)"
  by (simp add: get_active_goal_def fresh_memory_def plan_xy_def goal_at_def example_goal_def)

theorem get_active_goal_idempotent_witness:
  "goal_at (fresh_memory plan_xy) (current_goal (fresh_memory plan_xy)) = None
   \<and> get_active_goal (fresh_memory plan_xy)
       = (InPlan 0, (fresh_memory plan_xy)\<lparr>current_goal := InPlan 0\<rparr>)
   \<and> get_active_goal (snd (get_active_goal (fresh_memory plan_xy)))
       = get_active_goal (fresh_memory plan_xy)
   \<and> fst (o_get_active_goal (fresh_ostate plan_xy)) = Some 0
   \<and> o_get_active_goal (snd (o_get_active_goal (fresh_ostate plan_xy)))
       = o_get_active_goal (fresh_ostate plan_xy)"
proof -
  have h: "goal_at (fresh_memory plan_xy) (current_goal (fresh_memory plan_xy)) = None"
    by (simp add: fresh_memory_def goal_at_def)
  have fp: "first_pending 0 (long_term_plan (fresh_memory plan_xy)) = Some 0"
    by (simp add: fresh_memory_def plan_xy_def example_goal_def)
  note main = get_active_goal_idempotent [of "fresh_memory plan_xy" 0 "fresh_ostate plan_xy"]
  from main have idem: "get_active_goal (snd (get_active_goal (fresh_memory plan_xy)))
       = get_active_goal (fresh_memory plan_xy)"
    by (rule conjunct1)
  from main [THEN conjunct2, THEN conjunct2, THEN conjunct2, THEN conjunct1] h fp
  have act: "get_active_goal (fresh_memory plan_xy)
       = (InPlan 0, (fresh_memory plan_xy)\<lparr>current_goal := InPlan 0\<rparr>)"
    by simp
  have o0: "fst (o_get_active_goal (fresh_ostate plan_xy)) = Some 0"
    by (simp add: o_get_active_goal_def fresh_ostate_def plan_xy_def example_goal_def)
  note oidem = main [THEN conjunct2, THEN conjunct2, THEN conjunct2, THEN conjunct2,
                     THEN conjunct2, THEN conjunct1]
  from h act idem o0 oidem show ?thesis by (intro conjI)
qed

text \<open>
  Claim C8 as stated, for the tracker of \<^verbatim>\<open>agent/openai/memory.py\<close>, says that with
  no goal active \<^verbatim>\<open>get_active_goal\<close> activates the first pending goal, setting it as
  current. That tracker's function sets nothing: on a fresh memory whose plan is two
  pending goals it returns the first one and leaves the memory as it was, with
  \<^verbatim>\<open>current_goal\<close> still \<^verbatim>\<open>None\<close> and the goal's status still \<^verbatim>\<open>pending\<close>.
\<close>

theorem o_get_active_goal_sets_no_current_counterexample:
  "os_current_goal (fresh_ostate plan_xy) = PNone
   \<and> fst (o_get_active_goal (fresh_ostate plan_xy)) = Some 0
   \<and> snd (o_get_active_goal (fresh_ostate plan_xy)) = fresh_ostate plan_xy
   \<and> os_current_goal (snd (o_get_active_goal (fresh_ostate plan_xy))) = PNone
   \<and> status (os_plan (snd (o_get_active_goal (fresh_ostate plan_xy))) ! 0) = ''pending''"
  by (simp add: o_get_active_goal_def fresh_ostate_def plan_xy_def example_goal_def)

lemma active_goal_after:
  "active_goal (snd (get_active_goal m)) = active_goal m"
  by (simp add: active_goal_def get_active_goal_idem)

text \<open>
  C2, as amended. Let the active goal be the one \<^verbatim>\<open>get_active_goal\<close> reports: the
  current goal when one is set, else the first pending goal. For every memory and every
  id \<open>y\<close> other than the active goal's id, \<^verbatim>\<open>complete_current_goal(y)\<close> completes
  nothing: the plan, with every goal's status, is unchanged (so a pending goal \<open>y\<close> stays
  pending), and the active goal is the same before and after. Where a current goal was
  set the whole memory is unchanged; where none was set the only write is the lazy
  activation of the first pending goal that \<^verbatim>\<open>get_active_goal\<close> performs.
\<close>

theorem complete_other_goal_rejected:
  assumes "\<forall>c. active_goal m = Some c \<longrightarrow> goal_id c \<noteq> y"
  shows "complete_current_goal y m = snd (get_active_goal m)
         \<and> long_term_plan (complete_current_goal y m) = long_term_plan m
         \<and> active_goal (complete_current_goal y m) = active_goal m
         \<and> (goal_at m (current_goal m) \<noteq> None \<longrightarrow> complete_current_goal y m = m)
         \<and> (goal_at m (current_goal m) = None \<longrightarrow>
              complete_current_goal y m =
                (case first_pending 0 (long_term_plan m) of
                   Some i \<Rightarrow> m\<lparr>current_goal := InPlan i\<rparr> | None \<Rightarrow> m))"
proof -
  have eq: "complete_current_goal y m = snd (get_active_goal m)"
    using assms by (rule complete_rejected)
  have plan: "long_term_plan (complete_current_goal y m) = long_term_plan m"
    by (simp add: eq)
  have act: "active_goal (complete_current_goal y m) = active_goal m"
    by (simp add: eq active_goal_after)
  have set: "goal_at m (current_goal m) \<noteq> None \<longrightarrow> complete_current_goal y m = m"
    by (auto simp add: eq get_active_goal_def)
  have unset: "goal_at m (current_goal m) = None \<longrightarrow>
              complete_current_goal y m =
                (case first_pending 0 (long_term_plan m) of
                   Some i \<Rightarrow> m\<lparr>current_goal := InPlan i\<rparr> | None \<Rightarrow> m)"
    by (simp add: eq get_active_goal_def split: option.splits)
  from eq plan act set unset show ?thesis by (intro conjI)
qed

lemma fresh_xy_active:
  "active_goal (fresh_memory plan_xy) = Some (example_goal ''x'' ''pending'')"
  by (simp add: active_goal_def fresh_xy_eval goal_at_def)
     (simp add: fresh_memory_def plan_xy_def)

theorem complete_other_goal_rejected_witness:
  "active_goal (fresh_memory plan_xy) = Some (example_goal ''x'' ''pending'')
   \<and> goal_id (example_goal ''x'' ''pending'') \<noteq> ''y''
   \<and> long_term_plan (complete_current_goal ''y'' (fresh_memory plan_xy))
       = long_term_plan (fresh_memory plan_xy)
   \<and> active_goal (complete_current_goal ''y'' (fresh_memory plan_xy))
       = Some (example_goal ''x'' ''pending'')"
proof -
  have ne: "goal_id (example_goal ''x'' ''pending'') \<noteq> ''y''"
    by (simp add: example_goal_def)
  then have h: "\<forall>c. active_goal (fresh_memory plan_xy) = Some c \<longrightarrow> goal_id c \<noteq> ''y''"
    by (simp add: fresh_xy_active)
  note main = complete_other_goal_rejected [OF h]
  have plan: "long_term_plan (complete_current_goal ''y'' (fresh_memory plan_xy))
       = long_term_plan (fresh_memory plan_xy)"
    using main [THEN conjunct2, THEN conjunct1] .
  have act: "active_goal (complete_current_goal ''y'' (fresh_memory plan_xy))
       = Some (example_goal ''x'' ''pending'')"
    using main [THEN conjunct2, THEN conjunct2, THEN conjunct1]
    by (simp only: fresh_xy_active)
  from fresh_xy_active ne plan act show ?thesis by (intro conjI)
qed

text \<open>
  C2 as stated fails where no current goal is set: with plan \<open>[x, y]\<close>, both pending,
  and \<^verbatim>\<open>current_goal = None\<close>, the id \<open>y\<close> is not the id of the active goal, yet
  \<^verbatim>\<open>complete_current_goal("y")\<close> changes the active-goal pointer from \<^verbatim>\<open>None\<close>
  to goal \<open>x\<close>.
\<close>

theorem complete_other_goal_pointer_counterexample:
  "active_goal (fresh_memory plan_xy) = Some (example_goal ''x'' ''pending'')
   \<and> goal_id (example_goal ''x'' ''pending'') \<noteq> ''y''
   \<and> current_goal (fresh_memory plan_xy) = NoGoal
   \<and> current_goal (complete_current_goal ''y'' (fresh_memory plan_xy)) = InPlan 0"
proof -
  have "complete_current_goal ''y'' (fresh_memory plan_xy)
          = (fresh_memory plan_xy)\<lparr>current_goal := InPlan 0\<rparr>"
    by (simp add: complete_current_goal_def fresh_xy_eval goal_at_def)
       (simp add: fresh_memory_def plan_xy_def example_goal_def)
  then show ?thesis
    by (simp add: fresh_xy_active) (simp add: fresh_memory_def example_goal_def)
qed

lemma plan_step_facts:
  assumes "list_all2 goal_step old new"
  shows "length new = length old
         \<and> (\<forall>i<length old.
               goal_id (new ! i) = goal_id (old ! i)
               \<and> (status (old ! i) = ''completed'' \<longrightarrow> status (new ! i) = ''completed'')
               \<and> (status (new ! i) \<noteq> status (old ! i) \<longrightarrow> status (new ! i) = ''completed''))"
proof (intro conjI allI impI)
  show len: "length new = length old"
    using assms by (simp add: list_all2_lengthD)
  fix i assume i: "i < length old"
  with assms have step: "goal_step (old ! i) (new ! i)"
    by (simp add: list_all2_nthD)
  show "goal_id (new ! i) = goal_id (old ! i)"
    using step by (auto simp add: goal_step_def)
  show "status (new ! i) = ''completed''" if "status (old ! i) = ''completed''"
    using step that by (auto simp add: goal_step_def)
  show "status (new ! i) = ''completed''" if "status (new ! i) \<noteq> status (old ! i)"
    using step that by (auto simp add: goal_step_def)
qed

lemma complete_accepted:
  assumes "active_goal m = Some c" and "goal_id c = gid"
    and "first_with_id gid 0 (long_term_plan m) = Some i"
  shows "long_term_plan (complete_current_goal gid m) =
           (long_term_plan m)[i := (long_term_plan m ! i)\<lparr>status := ''completed''\<rparr>]
         \<and> current_goal (complete_current_goal gid m) =
             (case first_pending (Suc i) (drop (Suc i)
                     ((long_term_plan m)[i := (long_term_plan m ! i)\<lparr>status := ''completed''\<rparr>])) of
                Some j \<Rightarrow> InPlan j | None \<Rightarrow> NoGoal)"
  using assms
  by (auto simp add: complete_current_goal_def active_goal_def split_def Let_def
           split: option.splits)

lemma complete_accepted_next:
  assumes "active_goal m = Some c" and "goal_id c = gid"
    and "first_with_id gid 0 (long_term_plan m) = Some i"
  shows "status (long_term_plan (complete_current_goal gid m) ! i) = ''completed''
         \<and> (current_goal (complete_current_goal gid m) = NoGoal
              \<or> (\<exists>j. current_goal (complete_current_goal gid m) = InPlan j \<and> i < j
                     \<and> j < length (long_term_plan m)
                     \<and> status (long_term_plan (complete_current_goal gid m) ! j) = ''pending''))"
proof -
  define plan' where
    "plan' = (long_term_plan m)[i := (long_term_plan m ! i)\<lparr>status := ''completed''\<rparr>]"
  from complete_accepted [OF assms]
  have p: "long_term_plan (complete_current_goal gid m) = plan'"
    and c: "current_goal (complete_current_goal gid m) =
             (case first_pending (Suc i) (drop (Suc i) plan') of
                Some j \<Rightarrow> InPlan j | None \<Rightarrow> NoGoal)"
    by (simp_all add: plan'_def)
  from first_with_id_Some [OF assms(3)] have i: "i < length (long_term_plan m)" by simp
  have marked: "status (plan' ! i) = ''completed''"
    using i by (simp add: plan'_def)
  have len: "length plan' = length (long_term_plan m)" by (simp add: plan'_def)
  show ?thesis
  proof (cases "first_pending (Suc i) (drop (Suc i) plan')")
    case None
    with c p marked show ?thesis by simp
  next
    case (Some j)
    from first_pending_Some [OF Some]
    have j: "Suc i \<le> j" "j < Suc i + length (drop (Suc i) plan')"
      "status (drop (Suc i) plan' ! (j - Suc i)) = ''pending''"
      by auto
    have jlen: "j < length plan'" using j(1,2) i len by simp
    have "drop (Suc i) plan' ! (j - Suc i) = plan' ! j"
      using j(1) jlen by simp
    with j(3) have "status (plan' ! j) = ''pending''" by simp
    with Some c p marked j(1) jlen len show ?thesis by simp
  qed
qed

lemma active_in_plan_index:
  assumes "active_goal m = Some c" and "fst (get_active_goal m) = InPlan k"
    and "first_with_id (goal_id c) 0 (long_term_plan m) = Some i"
    and "distinct (map goal_id (long_term_plan m))"
  shows "i = k"
proof -
  from assms(1,2) have k: "k < length (long_term_plan m)" and ck: "c = long_term_plan m ! k"
    by (auto simp add: active_goal_def goal_at_def split: if_splits)
  from first_with_id_Some [OF assms(3)]
  have i: "i < length (long_term_plan m)" and ci: "goal_id (long_term_plan m ! i) = goal_id c"
    by auto
  have eq: "map goal_id (long_term_plan m) ! i = map goal_id (long_term_plan m) ! k"
    using i k ci ck by simp
  have "i < length (map goal_id (long_term_plan m))" "k < length (map goal_id (long_term_plan m))"
    using i k by simp_all
  with assms(4) eq show ?thesis
    using nth_eq_iff_index_eq by blast
qed

text \<open>
  C10, as amended. (1) Over any run of \<^verbatim>\<open>get_active_goal\<close>,
  \<^verbatim>\<open>complete_current_goal\<close> and \<^verbatim>\<open>update_goal_status\<close> calls, the plan keeps its
  length and its ids, a goal whose status is \<^verbatim>\<open>completed\<close> stays \<^verbatim>\<open>completed\<close>, and
  a status that differs at the end is \<^verbatim>\<open>completed\<close> (the only status ever written; with
  the two statuses the code uses this is the move from \<^verbatim>\<open>pending\<close> to
  \<^verbatim>\<open>completed\<close>, never back). (2) When \<^verbatim>\<open>complete_current_goal\<close> is called with the
  id of the active goal and a goal of the plan carries that id, the first such goal, at
  index \<open>i\<close>, is completed and \<^verbatim>\<open>current_goal\<close> becomes either \<^verbatim>\<open>None\<close> or a
  pending goal at an index strictly greater than \<open>i\<close>; with distinct ids and the active
  goal in the plan, \<open>i\<close> is the index of the active goal. (3) Called with any other id it
  leaves \<^verbatim>\<open>current_goal\<close> as \<^verbatim>\<open>get_active_goal\<close> leaves it.
\<close>

theorem goal_status_monotone:
  "(length (long_term_plan (apply_goal_ops ops m)) = length (long_term_plan m)
    \<and> (\<forall>i<length (long_term_plan m).
          goal_id (long_term_plan (apply_goal_ops ops m) ! i) = goal_id (long_term_plan m ! i)
          \<and> (status (long_term_plan m ! i) = ''completed''
               \<longrightarrow> status (long_term_plan (apply_goal_ops ops m) ! i) = ''completed'')
          \<and> (status (long_term_plan (apply_goal_ops ops m) ! i) \<noteq> status (long_term_plan m ! i)
               \<longrightarrow> status (long_term_plan (apply_goal_ops ops m) ! i) = ''completed'')))
   \<and> (active_goal m = Some c \<and> goal_id c = gid
        \<and> first_with_id gid 0 (long_term_plan m) = Some i \<longrightarrow>
         status (long_term_plan (complete_current_goal gid m) ! i) = ''completed''
         \<and> (current_goal (complete_current_goal gid m) = NoGoal
              \<or> (\<exists>j. current_goal (complete_current_goal gid m) = InPlan j \<and> i < j
                     \<and> j < length (long_term_plan m)
                     \<and> status (long_term_plan (complete_current_goal gid m) ! j) = ''pending''))
         \<and> (\<forall>k. fst (get_active_goal m) = InPlan k
                  \<and> distinct (map goal_id (long_term_plan m)) \<longrightarrow> i = k))
   \<and> ((\<forall>c. active_goal m = Some c \<longrightarrow> goal_id c \<noteq> gid) \<longrightarrow>
         current_goal (complete_current_goal gid m) = current_goal (snd (get_active_goal m)))"
proof (intro conjI impI)
  note facts = plan_step_facts [OF apply_goal_ops_plan_step [of m ops]]
  show "length (long_term_plan (apply_goal_ops ops m)) = length (long_term_plan m)"
    using facts by (rule conjunct1)
  show "\<forall>i<length (long_term_plan m).
          goal_id (long_term_plan (apply_goal_ops ops m) ! i) = goal_id (long_term_plan m ! i)
          \<and> (status (long_term_plan m ! i) = ''completed''
               \<longrightarrow> status (long_term_plan (apply_goal_ops ops m) ! i) = ''completed'')
          \<and> (status (long_term_plan (apply_goal_ops ops m) ! i) \<noteq> status (long_term_plan m ! i)
               \<longrightarrow> status (long_term_plan (apply_goal_ops ops m) ! i) = ''completed'')"
    using facts by (rule conjunct2)
next
  assume a: "active_goal m = Some c \<and> goal_id c = gid
        \<and> first_with_id gid 0 (long_term_plan m) = Some i"
  then have a1: "active_goal m = Some c" and a2: "goal_id c = gid"
    and a3: "first_with_id gid 0 (long_term_plan m) = Some i"
    by simp_all
  note nxt = complete_accepted_next [OF a1 a2 a3]
  show "status (long_term_plan (complete_current_goal gid m) ! i) = ''completed''"
    using nxt by (rule conjunct1)
  show "current_goal (complete_current_goal gid m) = NoGoal
              \<or> (\<exists>j. current_goal (complete_current_goal gid m) = InPlan j \<and> i < j
                     \<and> j < length (long_term_plan m)
                     \<and> status (long_term_plan (complete_current_goal gid m) ! j) = ''pending'')"
    using nxt by (rule conjunct2)
  show "\<forall>k. fst (get_active_goal m) = InPlan k
                  \<and> distinct (map goal_id (long_term_plan m)) \<longrightarrow> i = k"
    using active_in_plan_index [OF a1] a2 a3 by blast
next
  assume "\<forall>c. active_goal m = Some c \<longrightarrow> goal_id c \<noteq> gid"
  then show "current_goal (complete_current_goal gid m) = current_goal (snd (get_active_goal m))"
    by (simp add: complete_rejected)
qed

lemma fresh_xy_first_x: "first_with_id ''x'' 0 (long_term_plan (fresh_memory plan_xy)) = Some 0"
  by (simp add: fresh_memory_def plan_xy_def example_goal_def)

theorem goal_status_monotone_witness:
  "active_goal (fresh_memory plan_xy) = Some (example_goal ''x'' ''pending'')
   \<and> goal_id (example_goal ''x'' ''pending'') = ''x''
   \<and> first_with_id ''x'' 0 (long_term_plan (fresh_memory plan_xy)) = Some 0
   \<and> status (long_term_plan (complete_current_goal ''x'' (fresh_memory plan_xy)) ! 0) = ''completed''
   \<and> current_goal (complete_current_goal ''x'' (fresh_memory plan_xy)) = InPlan 1"
proof -
  have h: "active_goal (fresh_memory plan_xy) = Some (example_goal ''x'' ''pending'')
           \<and> goal_id (example_goal ''x'' ''pending'') = ''x''
           \<and> first_with_id ''x'' 0 (long_term_plan (fresh_memory plan_xy)) = Some 0"
    by (simp add: fresh_xy_active fresh_xy_first_x) (simp add: example_goal_def)
  note main = goal_status_monotone
    [of "[]" "fresh_memory plan_xy" "example_goal ''x'' ''pending''" "''x''" 0,
     THEN conjunct2, THEN conjunct1, rule_format, OF h]
  have st: "status (long_term_plan (complete_current_goal ''x'' (fresh_memory plan_xy)) ! 0)
              = ''completed''"
    using main by (rule conjunct1)
  have cur: "current_goal (complete_current_goal ''x'' (fresh_memory plan_xy)) = InPlan 1"
    by (simp add: complete_current_goal_def fresh_xy_eval goal_at_def)
       (simp add: fresh_memory_def plan_xy_def example_goal_def)
  from h st cur show ?thesis by simp
qed

text \<open>
  C10 as stated fails on a rejected call: with plan \<open>[x, y]\<close>, both pending, and goal
  \<open>x\<close> (index 0) current, \<^verbatim>\<open>complete_current_goal("y")\<close> returns at the guard and
  leaves \<^verbatim>\<open>current_goal\<close> at goal \<open>x\<close>, which is neither \<^verbatim>\<open>None\<close> nor a goal
  strictly later in the plan.
\<close>

theorem complete_rejected_keeps_current_counterexample:
  "current_goal ((fresh_memory plan_xy)\<lparr>current_goal := InPlan 0\<rparr>) = InPlan 0
   \<and> current_goal (complete_current_goal ''y'' ((fresh_memory plan_xy)\<lparr>current_goal := InPlan 0\<rparr>))
       = InPlan 0
   \<and> long_term_plan (complete_current_goal ''y'' ((fresh_memory plan_xy)\<lparr>current_goal := InPlan 0\<rparr>))
       = plan_xy"
  by (simp add: complete_current_goal_def get_active_goal_def goal_at_def fresh_memory_def
        plan_xy_def example_goal_def)

section \<open>Properties of the memory update\<close>

lemma record_failed_movement_fields [simp]:
  "pending (record_failed_movement cc d m) = pending m"
  "location (record_failed_movement cc d m) = location m"
  by (simp_all add: record_failed_movement_def Let_def)

lemma update_location:
  "truthy (player_location obs) \<Longrightarrow> location (update obs a m) = player_location obs"
  by (simp add: update_def Let_def split: option.splits prod.splits)

lemma update_clears_pending:
  assumes "truthy (player_location obs)" and "truthy (location m)"
    and "location m \<noteq> player_location obs"
  shows "pending (update obs a m) = []"
  using assms by (simp add: update_def Let_def split: option.splits prod.splits)

lemma enqueue_actions_location [simp]:
  "location (enqueue_actions acts m) = location m"
  by (simp add: enqueue_actions_def Let_def)

lemma enqueue_all_location [simp]: "location (enqueue_all calls m) = location m"
  by (induction calls arbitrary: m) simp_all

text \<open>
  C4 (map-change queue invalidation). Take two consecutive \<^verbatim>\<open>update\<close> calls whose
  observations report locations that are both present (truthy) and differ, with any
  \<^verbatim>\<open>enqueue_actions\<close> calls in between, so that the queue may hold tokens when the
  second update starts. After the second update the queue is empty,
  \<^verbatim>\<open>pop_next_action\<close> returns \<^verbatim>\<open>None\<close>, and the stored location is the new one.
\<close>

theorem map_change_clears_queue:
  assumes "truthy (player_location obs1)" and "truthy (player_location obs2)"
    and "player_location obs1 \<noteq> player_location obs2"
  shows "pending (update obs2 a2 (enqueue_all calls (update obs1 a1 m))) = []
         \<and> fst (pop_next_action (update obs2 a2 (enqueue_all calls (update obs1 a1 m)))) = None
         \<and> location (update obs2 a2 (enqueue_all calls (update obs1 a1 m))) = player_location obs2"
proof -
  let ?m1 = "enqueue_all calls (update obs1 a1 m)"
  have loc1: "location ?m1 = player_location obs1"
    using assms(1) by (simp add: update_location)
  have empty: "pending (update obs2 a2 ?m1) = []"
    using assms loc1 by (intro update_clears_pending) simp_all
  then have "fst (pop_next_action (update obs2 a2 ?m1)) = None"
    by (simp add: pop_next_action_def)
  with empty update_location [OF assms(2)] show ?thesis by simp
qed

lemma player_location_obs_at: "player_location (obs_at loc) = PStr loc"
  by (simp add: player_location_def obs_at_def)

theorem map_change_clears_queue_witness:
  "truthy (player_location (obs_at ''TRUCK''))
   \<and> truthy (player_location (obs_at ''HOUSE 1F''))
   \<and> player_location (obs_at ''TRUCK'') \<noteq> player_location (obs_at ''HOUSE 1F'')
   \<and> pending (enqueue_all [PList [PStr ''UP'', PStr ''A'']]
                (update (obs_at ''TRUCK'') PNone (fresh_memory []))) = [''UP'', ''A'']
   \<and> pending (update (obs_at ''HOUSE 1F'') (PStr ''UP'')
        (enqueue_all [PList [PStr ''UP'', PStr ''A'']]
           (update (obs_at ''TRUCK'') PNone (fresh_memory [])))) = []"
proof -
  have h1: "truthy (player_location (obs_at ''TRUCK''))"
    and h2: "truthy (player_location (obs_at ''HOUSE 1F''))"
    and h3: "player_location (obs_at ''TRUCK'') \<noteq> player_location (obs_at ''HOUSE 1F'')"
    by (simp_all add: player_location_obs_at)
  have q: "pending (enqueue_all [PList [PStr ''UP'', PStr ''A'']]
                (update (obs_at ''TRUCK'') PNone (fresh_memory []))) = [''UP'', ''A'']"
    by (simp add: enqueue_actions_def update_def player_location_obs_at Let_def
          strip_def upper_def upper_char_def is_space_def ALLOWED_BTNS_def fresh_memory_def)
  from map_change_clears_queue [OF h1 h2 h3, of "PStr ''UP''" "[PList [PStr ''UP'', PStr ''A'']]" PNone "fresh_memory []"]
  have "pending (update (obs_at ''HOUSE 1F'') (PStr ''UP'')
        (enqueue_all [PList [PStr ''UP'', PStr ''A'']]
           (update (obs_at ''TRUCK'') PNone (fresh_memory [])))) = []"
    by (rule conjunct1)
  with h1 h2 h3 q show ?thesis by (intro conjI)
qed

section \<open>Properties of the decision engine\<close>









lemma get_active_goal_shape:
  "\<exists>c. snd (get_active_goal m) = m\<lparr>current_goal := c\<rparr>"
proof (cases "goal_at m (current_goal m)")
  case (Some g)
  then have "snd (get_active_goal m) = m\<lparr>current_goal := current_goal m\<rparr>"
    by (simp add: get_active_goal_def)
  then show ?thesis by blast
next
  case None
  show ?thesis
  proof (cases "first_pending 0 (long_term_plan m)")
    case fp: None
    with None have "snd (get_active_goal m) = m\<lparr>current_goal := current_goal m\<rparr>"
      by (simp add: get_active_goal_def)
    then show ?thesis by blast
  next
    case (Some i)
    with None have "snd (get_active_goal m) = m\<lparr>current_goal := InPlan i\<rparr>"
      by (simp add: get_active_goal_def)
    then show ?thesis by blast
  qed
qed

lemma complete_current_goal_shape:
  "\<exists>p c. complete_current_goal gid m = m\<lparr>long_term_plan := p, current_goal := c\<rparr>"
proof -
  obtain c0 where g: "snd (get_active_goal m) = m\<lparr>current_goal := c0\<rparr>"
    using get_active_goal_shape by blast
  from complete_cases [of gid m] show ?thesis
  proof
    assume "complete_current_goal gid m = snd (get_active_goal m)"
    with g have "complete_current_goal gid m = m\<lparr>long_term_plan := long_term_plan m, current_goal := c0\<rparr>"
      by simp
    then show ?thesis by blast
  next
    assume "\<exists>i c. active_goal m = Some c \<and> goal_id c = gid
         \<and> first_with_id gid 0 (long_term_plan m) = Some i
         \<and> long_term_plan (complete_current_goal gid m) =
             (long_term_plan m)[i := (long_term_plan m ! i)\<lparr>status := ''completed''\<rparr>]
         \<and> current_goal (complete_current_goal gid m) =
             (case first_pending (Suc i) (drop (Suc i)
                     ((long_term_plan m)[i := (long_term_plan m ! i)\<lparr>status := ''completed''\<rparr>])) of
                Some j \<Rightarrow> InPlan j | None \<Rightarrow> NoGoal)"
    then obtain i c where a: "active_goal m = Some c" "goal_id c = gid"
      "first_with_id gid 0 (long_term_plan m) = Some i"
      by blast
    have "complete_current_goal gid m =
            (snd (get_active_goal m))\<lparr>long_term_plan := long_term_plan (complete_current_goal gid m),
               current_goal := current_goal (complete_current_goal gid m)\<rparr>"
      using a
      by (auto simp add: complete_current_goal_def active_goal_def split_def Let_def
               split: option.splits)
    then have "complete_current_goal gid m =
            m\<lparr>long_term_plan := long_term_plan (complete_current_goal gid m),
               current_goal := current_goal (complete_current_goal gid m)\<rparr>"
      using g by simp
    then show ?thesis by blast
  qed
qed

lemma update_goal_status_shape:
  "\<exists>p c. snd (update_goal_status obs m) = m\<lparr>long_term_plan := p, current_goal := c\<rparr>"
proof -
  obtain c0 where g: "snd (get_active_goal m) = m\<lparr>current_goal := c0\<rparr>"
    using get_active_goal_shape by blast
  from update_goal_status_cases [of obs m] show ?thesis
  proof (elim disjE exE)
    assume "snd (update_goal_status obs m) = m"
    then have "snd (update_goal_status obs m)
                 = m\<lparr>long_term_plan := long_term_plan m, current_goal := current_goal m\<rparr>"
      by simp
    then show ?thesis by blast
  next
    assume "snd (update_goal_status obs m) = snd (get_active_goal m)"
    with g have "snd (update_goal_status obs m)
                 = m\<lparr>long_term_plan := long_term_plan m, current_goal := c0\<rparr>"
      by simp
    then show ?thesis by blast
  next
    fix gid
    assume e: "snd (update_goal_status obs m) = complete_current_goal gid (snd (get_active_goal m))"
    obtain p c where "complete_current_goal gid (m\<lparr>current_goal := c0\<rparr>)
                        = (m\<lparr>current_goal := c0\<rparr>)\<lparr>long_term_plan := p, current_goal := c\<rparr>"
      using complete_current_goal_shape by blast
    with e g have "snd (update_goal_status obs m) = m\<lparr>long_term_plan := p, current_goal := c\<rparr>"
      by simp
    then show ?thesis by blast
  qed
qed

lemma enqueue_actions_rf [simp]:
  "dialogue_streak (enqueue_actions a m) = dialogue_streak m"
  "last_scene (enqueue_actions a m) = last_scene m"
  by (simp_all add: enqueue_actions_def Let_def)

lemma pop_next_action_rf [simp]:
  "dialogue_streak (snd (pop_next_action m)) = dialogue_streak m"
  "last_scene (snd (pop_next_action m)) = last_scene m"
  by (simp_all add: pop_next_action_def split: list.splits)

lemma dialogue_handler_facts:
  "d_action (fst (dialogue_handler sc pv m)) = escalation_ladder (dialogue_streak m + 1)
   \<and> dialogue_streak (snd (dialogue_handler sc pv m)) = dialogue_streak m + 1
   \<and> last_scene (snd (dialogue_handler sc pv m)) = sc"
  by (simp add: dialogue_handler_def escalation_ladder_def Let_def)

lemma hardcoded_sequences_not_map:
  "scene_type \<noteq> PStr ''MAP'' \<Longrightarrow> hardcoded_sequences gid scene_type obs m = m"
  by (simp add: hardcoded_sequences_def Let_def)

lemma goal_update_rf:
  "dialogue_streak (snd (get_active_goal (snd (update_goal_status obs m)))) = dialogue_streak m
   \<and> last_scene (snd (get_active_goal (snd (update_goal_status obs m)))) = last_scene m"
proof -
  obtain p c where u: "snd (update_goal_status obs m) = m\<lparr>long_term_plan := p, current_goal := c\<rparr>"
    using update_goal_status_shape by blast
  obtain c' where g: "snd (get_active_goal (m\<lparr>long_term_plan := p, current_goal := c\<rparr>))
                        = (m\<lparr>long_term_plan := p, current_goal := c\<rparr>)\<lparr>current_goal := c'\<rparr>"
    using get_active_goal_shape by blast
  show ?thesis by (simp add: u g)
qed

lemma decide_dialogue:
  assumes "dialogue_observation obs"
  shows "\<exists>m4. dialogue_streak m4 = dialogue_streak m \<and>
              decide ext obs m =
                Inr (Some (fst (dialogue_handler (dget obs ''scene_type'' (PStr ''UNKNOWN''))
                                  (last_scene m) m4)),
                     snd (dialogue_handler (dget obs ''scene_type'' (PStr ''UNKNOWN''))
                            (last_scene m) m4))"
proof -
  let ?sc = "dget obs ''scene_type'' (PStr ''UNKNOWN'')"
  let ?m1 = "m\<lparr>step_counter := step_counter m + 1\<rparr>"
  let ?m3 = "snd (get_active_goal (snd (update_goal_status obs ?m1)))"
  from assms have d: "is_dict obs" and sc: "?sc \<in> set DIALOGUE_LIKE"
    and mp: "is_dict (py_or (dget obs ''map'' (PDict [])) (PDict []))"
    by (simp_all add: dialogue_observation_def)
  from assms obtain s where s: "dget obs ''summary'' (PStr []) = PStr s"
    by (auto simp add: dialogue_observation_def split: pyval.splits)
  from sc have ne: "?sc \<noteq> PStr ''MAP''" "?sc \<noteq> PStr ''TITLE''" "?sc \<noteq> PStr ''UNKNOWN''"
    "?sc \<noteq> PStr ''BATTLE''"
    by (auto simp add: DIALOGUE_LIKE_def)
  have streak: "dialogue_streak ?m3 = dialogue_streak m"
    using goal_update_rf [of obs ?m1] by simp
  have "decide ext obs m =
          Inr (Some (fst (dialogue_handler ?sc (last_scene m) ?m3)),
               snd (dialogue_handler ?sc (last_scene m) ?m3))"
    using d s mp sc ne
    by (simp add: decide_def Let_def split_def hardcoded_sequences_not_map)
  with streak show ?thesis by blast
qed

lemma decide_dialogue_step:
  assumes "dialogue_observation obs"
  shows "\<exists>d m'. decide ext obs m = Inr (Some d, m')
           \<and> d_action d = escalation_ladder (dialogue_streak m + 1)
           \<and> dialogue_streak m' = dialogue_streak m + 1
           \<and> last_scene m' = dget obs ''scene_type'' (PStr ''UNKNOWN'')"
proof -
  from decide_dialogue [OF assms, of m ext] obtain m4 where
    s: "dialogue_streak m4 = dialogue_streak m" and
    e: "decide ext obs m =
                Inr (Some (fst (dialogue_handler (dget obs ''scene_type'' (PStr ''UNKNOWN''))
                                  (last_scene m) m4)),
                     snd (dialogue_handler (dget obs ''scene_type'' (PStr ''UNKNOWN''))
                            (last_scene m) m4))"
    by blast
  from dialogue_handler_facts [of "dget obs ''scene_type'' (PStr ''UNKNOWN'')" "last_scene m" m4] s e
  show ?thesis by simp
qed

lemma decide_battle:
  "\<exists>m'. decide ext (scene_obs ''BATTLE'') m =
           Inr (Some \<lparr>d_action = PStr ''A'', d_reason = ''battle''\<rparr>, m')
         \<and> dialogue_streak m' = dialogue_streak m \<and> last_scene m' = PStr ''BATTLE''"
proof -
  let ?obs = "scene_obs ''BATTLE''"
  let ?m1 = "m\<lparr>step_counter := step_counter m + 1\<rparr>"
  let ?m3 = "snd (get_active_goal (snd (update_goal_status ?obs ?m1)))"
  have streak: "dialogue_streak ?m3 = dialogue_streak m"
    using goal_update_rf [of ?obs ?m1] by simp
  have "decide ext ?obs m =
          Inr (Some \<lparr>d_action = PStr ''A'', d_reason = ''battle''\<rparr>,
               ?m3\<lparr>last_scene := PStr ''BATTLE''\<rparr>)"
    by (simp add: decide_def scene_obs_def Let_def split_def hardcoded_sequences_not_map
          py_or_def any_in_def TITLE_KEYWORDS_def DIALOGUE_LIKE_def lower_def)
  with streak show ?thesis by simp
qed

text \<open>
  Within one run of dialogue steps the ladder is as specified: the \<open>k\<close>-th step of the
  run returns A, B or START as the counter, one more at each step, is below 40, from 40
  to 59, or at least 60.
\<close>

lemma decide_run_dialogue:
  assumes "\<forall>obs \<in> set obss. dialogue_observation obs"
  shows "length (fst (decide_run ext obss m)) = length obss
         \<and> (\<forall>k<length obss.
               fst (decide_run ext obss m) ! k = escalation_ladder (dialogue_streak m + int k + 1))
         \<and> dialogue_streak (snd (decide_run ext obss m)) = dialogue_streak m + int (length obss)"
  using assms
proof (induction obss arbitrary: m)
  case Nil
  show ?case by simp
next
  case (Cons obs obss)
  then have o: "dialogue_observation obs" and rest: "\<forall>x \<in> set obss. dialogue_observation x"
    by simp_all
  from decide_dialogue_step [OF o, of ext m] obtain d m' where
    e: "decide ext obs m = Inr (Some d, m')"
    and a: "d_action d = escalation_ladder (dialogue_streak m + 1)"
    and s: "dialogue_streak m' = dialogue_streak m + 1"
    by blast
  note ih = Cons.IH [OF rest, of m']
  have run: "decide_run ext (obs # obss) m
               = (d_action d # fst (decide_run ext obss m'), snd (decide_run ext obss m'))"
    by (simp add: e split_def Let_def)
  show ?case
  proof (intro conjI allI impI)
    show "length (fst (decide_run ext (obs # obss) m)) = length (obs # obss)"
      using ih by (simp add: run del: decide_run.simps)
    show "dialogue_streak (snd (decide_run ext (obs # obss) m))
            = dialogue_streak m + int (length (obs # obss))"
      using ih s by (simp add: run del: decide_run.simps)
    fix k assume k: "k < length (obs # obss)"
    show "fst (decide_run ext (obs # obss) m) ! k
            = escalation_ladder (dialogue_streak m + int k + 1)"
    proof (cases k)
      case 0
      then show ?thesis using a by (simp add: run del: decide_run.simps)
    next
      case (Suc j)
      with k have "j < length obss" by simp
      with ih have "fst (decide_run ext obss m') ! j
                      = escalation_ladder (dialogue_streak m' + int j + 1)"
        by blast
      then show ?thesis using Suc s by (simp add: run add.commute add.left_commute del: decide_run.simps)
    qed
  qed
qed

lemma decide_run_append:
  "length (fst (decide_run ext xs m)) = length xs \<Longrightarrow>
   decide_run ext (xs @ ys) m =
     (fst (decide_run ext xs m) @ fst (decide_run ext ys (snd (decide_run ext xs m))),
      snd (decide_run ext ys (snd (decide_run ext xs m))))"
proof (induction xs arbitrary: m)
  case Nil
  show ?case by simp
next
  case (Cons x xs)
  show ?case
  proof (cases "decide ext x m")
    case (Inl e)
    with Cons.prems show ?thesis by simp
  next
    case (Inr r)
    obtain d m1 where r: "r = (d, m1)" by (cases r)
    from Cons.prems Inr r have "length (fst (decide_run ext xs m1)) = length xs"
      by (simp add: split_def Let_def)
    from Cons.IH [OF this] Inr r show ?thesis by (simp add: split_def Let_def)
  qed
qed

lemma dialogue_observation_scene_obs:
  "dialogue_observation (scene_obs ''DIALOGUE'')"
  by (simp add: dialogue_observation_def scene_obs_def DIALOGUE_LIKE_def py_or_def)

text \<open>
  C5, at the failing input. From a fresh memory, 39 \<^verbatim>\<open>DIALOGUE\<close> steps, one
  \<^verbatim>\<open>BATTLE\<close> step and one more \<^verbatim>\<open>DIALOGUE\<close> step: the streak counter is not
  reset by the change to the battle scene (the \<^verbatim>\<open>BATTLE\<close> branch returns before the
  reset), so the last call, the first step of a new dialogue run, finds the counter at 40
  and returns \<^verbatim>\<open>B\<close>.
\<close>

theorem dialogue_streak_survives_battle:
  "fst (decide_run ext
          (replicate 39 (scene_obs ''DIALOGUE'') @ [scene_obs ''BATTLE'', scene_obs ''DIALOGUE''])
          (fresh_memory []))
     = replicate 40 (PStr ''A'') @ [PStr ''B'']
   \<and> dialogue_streak (snd (decide_run ext
          (replicate 39 (scene_obs ''DIALOGUE'') @ [scene_obs ''BATTLE'', scene_obs ''DIALOGUE''])
          (fresh_memory []))) = 40"
proof -
  let ?ds = "replicate 39 (scene_obs ''DIALOGUE'')"
  let ?m0 = "fresh_memory []"
  let ?m1 = "snd (decide_run ext ?ds ?m0)"
  have all: "\<forall>obs \<in> set ?ds. dialogue_observation obs"
    by (simp add: dialogue_observation_scene_obs)
  note run = decide_run_dialogue [OF all, of ext ?m0]
  have len: "length (fst (decide_run ext ?ds ?m0)) = length ?ds"
    using run by (rule conjunct1)
  have s0: "dialogue_streak ?m0 = 0" by (simp add: fresh_memory_def)
  have streak1: "dialogue_streak ?m1 = 39"
    using run s0 by simp
  have acts: "fst (decide_run ext ?ds ?m0) = replicate 39 (PStr ''A'')"
  proof (rule nth_equalityI)
    show "length (fst (decide_run ext ?ds ?m0)) = length (replicate 39 (PStr ''A''))"
      using len by simp
    fix k assume "k < length (fst (decide_run ext ?ds ?m0))"
    then have k: "k < 39" using len by simp
    then have "fst (decide_run ext ?ds ?m0) ! k = escalation_ladder (dialogue_streak ?m0 + int k + 1)"
      using run by simp
    also have "\<dots> = PStr ''A''" using k s0 by (simp add: escalation_ladder_def)
    finally show "fst (decide_run ext ?ds ?m0) ! k = replicate 39 (PStr ''A'') ! k"
      using k by simp
  qed
  from decide_battle [of ext ?m1] obtain m2 where
    b: "decide ext (scene_obs ''BATTLE'') ?m1 =
           Inr (Some \<lparr>d_action = PStr ''A'', d_reason = ''battle''\<rparr>, m2)"
    and streak2: "dialogue_streak m2 = dialogue_streak ?m1"
    by blast
  from decide_dialogue_step [OF dialogue_observation_scene_obs, of ext m2] obtain d m3 where
    e: "decide ext (scene_obs ''DIALOGUE'') m2 = Inr (Some d, m3)"
    and a: "d_action d = escalation_ladder (dialogue_streak m2 + 1)"
    and streak3: "dialogue_streak m3 = dialogue_streak m2 + 1"
    by blast
  have tail: "decide_run ext [scene_obs ''BATTLE'', scene_obs ''DIALOGUE''] ?m1
                = ([PStr ''A'', PStr ''B''], m3)"
    using b e a streak2 streak1 by (simp add: escalation_ladder_def Let_def)
  have "decide_run ext (?ds @ [scene_obs ''BATTLE'', scene_obs ''DIALOGUE'']) ?m0
          = (replicate 39 (PStr ''A'') @ [PStr ''A'', PStr ''B''], m3)"
    using decide_run_append [OF len, of "[scene_obs ''BATTLE'', scene_obs ''DIALOGUE'']"]
    by (simp only: tail acts fst_conv snd_conv)
  moreover have "replicate 39 (PStr ''A'') @ [PStr ''A'', PStr ''B'']
                   = replicate 40 (PStr ''A'') @ [PStr ''B'']"
    by (simp add: replicate_append_same eval_nat_numeral)
  ultimately show ?thesis using streak3 streak2 streak1 by simp
qed

section \<open>Properties of the scene classifier\<close>

lemma truthy_py_or: "truthy (py_or a b) = (truthy a \<or> truthy b)"
  by (simp add: py_or_def)

lemma is_title_keys:
  "is_title obs = (obs_flag obs ''title_screen'' \<or> state_flag obs ''is_title''
                    \<or> state_flag obs ''title'')"
  by (simp add: is_title_def truthy_py_or obs_flag_def state_flag_def)

lemma in_battle_keys:
  "in_battle obs = (sub_flag obs ''battle'' ''in_battle'' \<or> state_flag obs ''in_battle''
                     \<or> state_flag obs ''battle'')"
  by (simp add: in_battle_def truthy_py_or sub_flag_def state_flag_def)

lemma dialogue_open_keys:
  "dialogue_open obs = (sub_flag obs ''dialogue'' ''open'' \<or> state_flag obs ''dialogue_open''
                         \<or> obs_flag obs ''textbox_open'' \<or> state_flag obs ''textbox_open'')"
  by (simp add: dialogue_open_def truthy_py_or sub_flag_def state_flag_def obs_flag_def)

lemma menu_open_keys:
  "menu_open obs = (sub_flag obs ''menu'' ''open'' \<or> state_flag obs ''menu_open''
                     \<or> state_flag obs ''in_menu'')"
  by (simp add: menu_open_def truthy_py_or sub_flag_def state_flag_def)

lemma cutscene_keys:
  "cutscene obs = (obs_flag obs ''cutscene'' \<or> state_flag obs ''cutscene''
                    \<or> state_flag obs ''script_active'')"
  by (simp add: cutscene_def truthy_py_or obs_flag_def state_flag_def)

lemma scene_cascade:
  assumes "obs_shape_ok obs"
  shows "scene_type_of obs =
           Some (if is_title obs then ''TITLE''
                 else if in_battle obs then ''BATTLE''
                 else if dialogue_open obs then ''DIALOGUE''
                 else if menu_open obs then ''MENU''
                 else if cutscene obs then ''CUTSCENE''
                 else if truthy (map_name obs)
                         \<or> (player_px obs \<noteq> PNone \<and> player_py obs \<noteq> PNone) then ''MAP''
                 else ''UNKNOWN'')"
  using assms by (simp add: scene_type_of_def infer_scene_from_state_def)

text \<open>
  The priority of the flags, for an observation on which the function returns (every sub-dict
  it calls \<^verbatim>\<open>.get\<close> on is a dict): if a title flag is set the result is the fixed
  \<^verbatim>\<open>TITLE\<close> dict, whatever else the observation holds; else if a battle flag is set
  the scene is \<^verbatim>\<open>BATTLE\<close>; else a dialogue flag gives \<^verbatim>\<open>DIALOGUE\<close>; else a menu
  flag gives \<^verbatim>\<open>MENU\<close>; else a cutscene flag gives \<^verbatim>\<open>CUTSCENE\<close>. With no flag set,
  a truthy map name, or player x and y both present, gives \<^verbatim>\<open>MAP\<close>; with neither
  the result is the \<^verbatim>\<open>UNKNOWN\<close> dict.
\<close>

theorem scene_flag_priority:
  assumes "obs_shape_ok obs"
  shows "(obs_flag obs ''title_screen'' \<or> state_flag obs ''is_title'' \<or> state_flag obs ''title''
            \<longrightarrow> infer_scene_from_state obs =
                  Inr \<lparr>sr_scene_type = ''TITLE'', sr_summary = ''Main menu visible.'',
                       sr_key_elements = ''Screen=Title''\<rparr>)
         \<and> (\<not> is_title obs
              \<and> (sub_flag obs ''battle'' ''in_battle'' \<or> state_flag obs ''in_battle''
                   \<or> state_flag obs ''battle'')
            \<longrightarrow> scene_type_of obs = Some ''BATTLE'')
         \<and> (\<not> is_title obs \<and> \<not> in_battle obs
              \<and> (sub_flag obs ''dialogue'' ''open'' \<or> state_flag obs ''dialogue_open''
                   \<or> obs_flag obs ''textbox_open'' \<or> state_flag obs ''textbox_open'')
            \<longrightarrow> scene_type_of obs = Some ''DIALOGUE'')
         \<and> (\<not> is_title obs \<and> \<not> in_battle obs \<and> \<not> dialogue_open obs
              \<and> (sub_flag obs ''menu'' ''open'' \<or> state_flag obs ''menu_open''
                   \<or> state_flag obs ''in_menu'')
            \<longrightarrow> scene_type_of obs = Some ''MENU'')
         \<and> (\<not> is_title obs \<and> \<not> in_battle obs \<and> \<not> dialogue_open obs \<and> \<not> menu_open obs
              \<and> (obs_flag obs ''cutscene'' \<or> state_flag obs ''cutscene''
                   \<or> state_flag obs ''script_active'')
            \<longrightarrow> scene_type_of obs = Some ''CUTSCENE'')
         \<and> (\<not> is_title obs \<and> \<not> in_battle obs \<and> \<not> dialogue_open obs \<and> \<not> menu_open obs
              \<and> \<not> cutscene obs
              \<and> (truthy (map_name obs) \<or> (player_px obs \<noteq> PNone \<and> player_py obs \<noteq> PNone))
            \<longrightarrow> scene_type_of obs = Some ''MAP'')
         \<and> (\<not> is_title obs \<and> \<not> in_battle obs \<and> \<not> dialogue_open obs \<and> \<not> menu_open obs
              \<and> \<not> cutscene obs
              \<and> \<not> truthy (map_name obs) \<and> (player_px obs = PNone \<or> player_py obs = PNone)
            \<longrightarrow> infer_scene_from_state obs =
                  Inr \<lparr>sr_scene_type = ''UNKNOWN'', sr_summary = [], sr_key_elements = []\<rparr>)"
proof -
  note c = scene_cascade [OF assms]
  have t: "obs_flag obs ''title_screen'' \<or> state_flag obs ''is_title'' \<or> state_flag obs ''title''
            \<longrightarrow> infer_scene_from_state obs =
                  Inr \<lparr>sr_scene_type = ''TITLE'', sr_summary = ''Main menu visible.'',
                       sr_key_elements = ''Screen=Title''\<rparr>"
    using assms by (simp add: infer_scene_from_state_def is_title_keys [symmetric])
  have u: "\<not> is_title obs \<and> \<not> in_battle obs \<and> \<not> dialogue_open obs \<and> \<not> menu_open obs
              \<and> \<not> cutscene obs
              \<and> \<not> truthy (map_name obs) \<and> (player_px obs = PNone \<or> player_py obs = PNone)
            \<longrightarrow> infer_scene_from_state obs =
                  Inr \<lparr>sr_scene_type = ''UNKNOWN'', sr_summary = [], sr_key_elements = []\<rparr>"
    using assms by (auto simp add: infer_scene_from_state_def)
  show ?thesis
    using t u c
    by (simp only: in_battle_keys [symmetric] dialogue_open_keys [symmetric]
          menu_open_keys [symmetric] cutscene_keys [symmetric]) simp
qed

theorem scene_flag_priority_witness:
  "obs_shape_ok title_and_battle_obs
   \<and> obs_flag title_and_battle_obs ''title_screen''
   \<and> state_flag title_and_battle_obs ''in_battle''
   \<and> infer_scene_from_state title_and_battle_obs =
         Inr \<lparr>sr_scene_type = ''TITLE'', sr_summary = ''Main menu visible.'',
              sr_key_elements = ''Screen=Title''\<rparr>"
proof -
  have shape: "obs_shape_ok title_and_battle_obs"
    by (simp add: obs_shape_ok_def obs_dict_def title_and_battle_obs_def py_or_def)
  have f1: "obs_flag title_and_battle_obs ''title_screen''"
    by (simp add: obs_flag_def obs_dict_def title_and_battle_obs_def py_or_def)
  have f2: "state_flag title_and_battle_obs ''in_battle''"
    by (simp add: state_flag_def obs_state_def obs_dict_def title_and_battle_obs_def py_or_def)
  from scene_flag_priority [OF shape, THEN conjunct1] f1
  have "infer_scene_from_state title_and_battle_obs =
         Inr \<lparr>sr_scene_type = ''TITLE'', sr_summary = ''Main menu visible.'',
              sr_key_elements = ''Screen=Title''\<rparr>"
    by blast
  with shape f1 f2 show ?thesis by (intro conjI)
qed

text \<open>
  Claim C7 says that when any structured flag is set the classifier returns at once
  according to the priority title, battle, dialogue, menu, cutscene, with no further
  signal checked. The code does not satisfy this. Under the comment
  \<^verbatim>\<open># Defensive: normalize containers\<close> it evaluates
  \<^verbatim>\<open>obs.get("battle", {}).get(...)\<close>, \<^verbatim>\<open>obs.get("dialogue", {}).get(...)\<close> and
  \<^verbatim>\<open>obs.get("menu", {}).get(...)\<close> before the first \<^verbatim>\<open>return\<close>, and the default
  \<^verbatim>\<open>{}\<close> does not stand in for an entry that is present and not a dict. On the
  observation \<^verbatim>\<open>{"title_screen": True, "dialogue": None}\<close> the title flag is set and
  the call ends with \<^verbatim>\<open>AttributeError\<close> where the claim has the \<^verbatim>\<open>TITLE\<close> result.
\<close>

theorem title_flag_null_dialogue_raises:
  "obs_flag title_null_dialogue_obs ''title_screen''
   \<and> is_title title_null_dialogue_obs
   \<and> infer_scene_from_state title_null_dialogue_obs = Inl AttributeError"
  by (simp add: obs_flag_def is_title_def infer_scene_from_state_def obs_shape_ok_def
        obs_dict_def obs_state_def title_null_dialogue_obs_def py_or_def)

section \<open>\<^verbatim>\<open>update_goal_status\<close> of \<^verbatim>\<open>agent/openai/memory.py\<close> and exceptions\<close>

lemma o_goal_rule_littleroot:
  "o_goal_rule ''littleroot_town_explore'' text loc obs_loc sc pc mid = Raise TypeError"
  by (simp add: o_goal_rule_def)

lemma o_apply_rules_littleroot:
  assumes "fst (o_get_active_goal m) = Some i"
    and "goal_id (os_plan m ! i) = ''littleroot_town_explore''"
  shows "o_apply_rules obs text loc obs_loc pc m = Inl TypeError"
  using assms by (simp add: o_apply_rules_def o_goal_rule_littleroot)

lemma and_then_Inl: "(\<And>v. \<exists>e. f v = Inl e) \<Longrightarrow> \<exists>e. and_then r f = Inl e"
  by (cases r) (simp_all add: and_then_def)

lemma littleroot_always_raises:
  assumes "fst (o_get_active_goal m) = Some i"
    and "goal_id (os_plan m ! i) = ''littleroot_town_explore''"
  shows "\<exists>e. o_update_goal_status obs m = Inl e"
  unfolding o_update_goal_status_def
  by (intro and_then_Inl) (simp add: o_apply_rules_littleroot [OF assms])

text \<open>
  Claim C9 says that \<^verbatim>\<open>update_goal_status\<close> never propagates an exception to its
  caller, for every observation and every goal that can be the active goal. The code does
  not satisfy this. With the goal \<^verbatim>\<open>littleroot_town_explore\<close> of the default plan
  active, the rule of that goal evaluates
  \<^verbatim>\<open>("littleroot_town", "outside_littleroot", "littleroot") in loc\<close>, a tuple on the
  left of \<^verbatim>\<open>in\<close> and a string on the right, and the \<^verbatim>\<open>TypeError\<close> leaves the
  function: on a fresh memory whose plan is that goal, and the observation
  \<^verbatim>\<open>{"scene_type": "MAP", "summary": "Littleroot Town", "key_elements": {}}\<close>, the goal
  is the active one and the call ends with \<^verbatim>\<open>TypeError\<close>.
\<close>

theorem littleroot_goal_raises:
  "fst (o_get_active_goal (fresh_ostate [littleroot_goal])) = Some 0
   \<and> o_update_goal_status map_observation (fresh_ostate [littleroot_goal]) = Inl TypeError"
proof -
  have act: "fst (o_get_active_goal (fresh_ostate [littleroot_goal])) = Some 0"
    by (simp add: o_get_active_goal_def fresh_ostate_def littleroot_goal_def)
  have gid: "goal_id (os_plan (fresh_ostate [littleroot_goal]) ! 0) = ''littleroot_town_explore''"
    by (simp add: fresh_ostate_def littleroot_goal_def)
  have t: "\<exists>t. o_text (o_observation map_observation) = Inr t"
    by (simp add: o_text_def o_observation_def map_observation_def)
  have l: "lower_or_empty (os_location (fresh_ostate [littleroot_goal])) = Inr []"
    by (simp add: lower_or_empty_def fresh_ostate_def py_or_def lower_def)
  have ol: "lower_or_empty (dget (o_mem_ke (o_observation map_observation)) ''Location'' PNone) = Inr []"
    by (simp add: lower_or_empty_def o_mem_ke_def o_observation_def map_observation_def py_or_def lower_def)
  have pc: "o_party_count (fresh_ostate [littleroot_goal]) = Inr 0"
    by (simp add: o_party_count_def fresh_ostate_def py_or_def py_int_def)
  from t obtain tx where tx: "o_text (o_observation map_observation) = Inr tx" by blast
  have "o_update_goal_status map_observation (fresh_ostate [littleroot_goal]) = Inl TypeError"
    by (simp add: o_update_goal_status_def and_then_def tx l ol pc
          o_apply_rules_littleroot [OF act gid])
  with act show ?thesis by simp
qed

section \<open>The context cache of \<^verbatim>\<open>agent/openai/planning.py\<close>\<close>

text \<open>No call of \<^verbatim>\<open>decide\<close> that returns changes the cache.\<close>

lemma o_enqueue_actions_cache: "os_cache (o_enqueue_actions a m) = os_cache m"
  by (simp add: o_enqueue_actions_def Let_def)

lemma o_note_action_cache: "os_cache (o_note_action a m) = os_cache m"
  by (simp add: o_note_action_def)

lemma o_pop_next_action_cache: "os_cache (snd (o_pop_next_action m)) = os_cache m"
  by (simp add: o_pop_next_action_def o_note_action_cache split: list.splits)

lemma o_complete_cache: "os_cache (o_complete i m) = os_cache m"
  by (simp add: o_complete_def)

lemma o_apply_rules_cache:
  assumes "o_apply_rules obs tx loc obs_loc pc m = Inr m'"
  shows "os_cache m' = os_cache m"
proof (cases "fst (o_get_active_goal m)")
  case None
  with assms show ?thesis by (simp add: o_apply_rules_def)
next
  case (Some i)
  show ?thesis
  proof (cases "o_goal_rule (goal_id (os_plan m ! i)) tx loc obs_loc
                  (dget obs ''scene_type'' (PStr [])) pc
                  (py_or (os_map_id m) (dget (o_mem_ke obs) ''map_id'' PNone))")
    case Complete
    with assms Some show ?thesis by (auto simp add: o_apply_rules_def o_complete_cache)
  next
    case Return
    with assms Some show ?thesis by (simp add: o_apply_rules_def)
  next
    case (Raise e)
    with assms Some show ?thesis by (simp add: o_apply_rules_def)
  next
    case Fallback
    with assms Some show ?thesis
      by (auto simp add: o_apply_rules_def o_complete_cache split: if_splits)
  qed
qed

lemma and_then_Inr: "and_then r f = Inr y \<Longrightarrow> \<exists>v. r = Inr v \<and> f v = Inr y"
  by (cases r) (simp_all add: and_then_def)

lemma o_update_goal_status_cache:
  assumes "o_update_goal_status obs m = Inr m'"
  shows "os_cache m' = os_cache m"
proof -
  from assms obtain tx loc obs_loc pc
    where "o_apply_rules (o_observation obs) tx loc obs_loc pc m = Inr m'"
    unfolding o_update_goal_status_def
    by (blast dest: and_then_Inr)
  then show ?thesis by (rule o_apply_rules_cache)
qed

lemma queue_followups_cache: "os_cache (queue_followups txt m) = os_cache m"
  by (simp add: queue_followups_def Let_def o_enqueue_actions_cache)

lemma o_parse_reply_cache: "os_cache (snd (o_parse_reply ext st out m)) = os_cache m"
  by (simp add: o_parse_reply_def Let_def o_enqueue_actions_cache queue_followups_cache
        split: option.splits prod.splits)

lemma o_decide_fresh_cache:
  assumes "o_decide_fresh ext st sl os ke m = Inr (d, m')"
  shows "os_cache m' = os_cache m"
proof -
  have p: "os_cache (snd (o_parse_reply ext st (oe_reply ext) (m\<lparr>os_calls := os_calls m + 1\<rparr>)))
             = os_cache m"
    by (simp add: o_parse_reply_cache)
  from assms p show ?thesis
    by (auto simp add: o_decide_fresh_def Let_def o_enqueue_actions_cache
          split: if_splits option.splits)
qed

lemma o_decide_cache:
  assumes "o_decide ext obs m = Inr (d, m')"
  shows "os_cache m' = os_cache m"
proof -
  define m1 where "m1 = (case o_update_goal_status obs m of Inr m' \<Rightarrow> m' | Inl e \<Rightarrow> m)"
  have c1: "os_cache m1 = os_cache m"
    by (simp add: m1_def o_update_goal_status_cache split: sum.splits)
  have c2: "os_cache (snd (o_pop_next_action m1)) = os_cache m"
    using o_pop_next_action_cache [of m1] c1 by simp
  from assms have "m' = m \<or> m' = snd (o_pop_next_action m1)
      \<or> m' = (snd (o_pop_next_action m1))\<lparr>os_shadow := tl (os_shadow (snd (o_pop_next_action m1)))\<rparr>
      \<or> (\<exists>st sl os ke. o_decide_fresh ext st sl os ke
            ((snd (o_pop_next_action m1))\<lparr>os_shadow := tl (os_shadow (snd (o_pop_next_action m1)))\<rparr>)
              = Inr (d, m'))
      \<or> (\<exists>st sl os ke. o_decide_fresh ext st sl os ke (snd (o_pop_next_action m1)) = Inr (d, m'))"
    unfolding o_decide_def Let_def split_def m1_def [symmetric]
    by (auto split: if_splits option.splits pyval.splits list.splits)
  with c1 c2 show ?thesis
    by (auto dest: o_decide_fresh_cache)
qed


text \<open>
  Claim C6 says that of two successive \<^verbatim>\<open>decide\<close> calls whose contexts hash equal,
  the second returns the cached result of the first and makes no new call of the oracle.
  The code does not satisfy this. \<^verbatim>\<open>decide\<close> reads
  \<^verbatim>\<open>self.context_cache.get(ctx_hash)\<close>, but no statement stores into
  \<^verbatim>\<open>context_cache\<close>, which stays the empty dict of \<^verbatim>\<open>__init__\<close>; the docstring
  of \<^verbatim>\<open>_hash_context\<close> gives the purpose, to avoid redundant calls. On a fresh planner
  and memory with an empty plan and the observation
  \<^verbatim>\<open>{"scene_type": "MAP", "summary": "Littleroot Town", "key_elements": {}}\<close>, the
  first call asks the oracle, which answers \<^verbatim>\<open>UP\<close>, and returns \<^verbatim>\<open>UP\<close>; the
  cache is still empty and the context hash is the same; the second call asks the oracle
  again, and when the answer is now \<^verbatim>\<open>DOWN\<close> it returns \<^verbatim>\<open>DOWN\<close>, not the result
  of the first call.
\<close>

theorem unchanged_context_calls_oracle_again:
  "o_decide up_externals map_observation (fresh_ostate [])
     = Inr (\<lparr>od_action = PStr ''UP'', od_reason = None\<rparr>, (fresh_ostate [])\<lparr>os_calls := 1\<rparr>)
   \<and> os_cache ((fresh_ostate [])\<lparr>os_calls := 1\<rparr>) = []
   \<and> hash_context map_observation ((fresh_ostate [])\<lparr>os_calls := 1\<rparr>)
       = hash_context map_observation (fresh_ostate [])
   \<and> o_decide down_externals map_observation ((fresh_ostate [])\<lparr>os_calls := 1\<rparr>)
       = Inr (\<lparr>od_action = PStr ''DOWN'', od_reason = None\<rparr>,
              (fresh_ostate [])\<lparr>os_calls := 2\<rparr>)"
proof -
  have first: "o_decide up_externals map_observation (fresh_ostate [])
     = Inr (\<lparr>od_action = PStr ''UP'', od_reason = None\<rparr>, (fresh_ostate [])\<lparr>os_calls := 1\<rparr>)"
    by code_simp
  have cache: "os_cache ((fresh_ostate [])\<lparr>os_calls := 1\<rparr>) = []"
    by (simp add: fresh_ostate_def)
  have hash: "hash_context map_observation ((fresh_ostate [])\<lparr>os_calls := 1\<rparr>)
       = hash_context map_observation (fresh_ostate [])"
    by (simp add: hash_context_def o_get_active_goal_def fresh_ostate_def)
  have second: "o_decide down_externals map_observation ((fresh_ostate [])\<lparr>os_calls := 1\<rparr>)
       = Inr (\<lparr>od_action = PStr ''DOWN'', od_reason = None\<rparr>,
              (fresh_ostate [])\<lparr>os_calls := 2\<rparr>)"
    by code_simp
  from first cache hash second show ?thesis by (intro conjI)
qed

end
